theory Spec2Isabelle
  imports Complex_Main "HOL-Library.AList" "HOL-Library.Sublist"
begin

section \<open>Voice cloning service: registry, preprocessing and synthesis adapter\<close>

text \<open>
  A shallow embedding of \<^verbatim>\<open>src/models/voice_cloner.py\<close> (class \<^verbatim>\<open>VoiceCloner\<close>) and of the
  two request handlers of \<^verbatim>\<open>src/app.py\<close> that use it. The signal-processing and
  speech-synthesis libraries (librosa, soundfile, torchaudio, the TTS model), the random
  UUID generator and the operating system's refusals are not part of the program: they are
  the fields of an environment record, and every theorem holds for every environment.
  Exceptions are values of a sum type (\<open>Inl\<close> the exception), mutation of the instance
  and of the file system is explicit state passing, and \<^verbatim>\<open>await\<close> is sequential.
\<close>

subsection \<open>Exceptions\<close>

text \<open>
  All exceptions below derive from Python's \<^verbatim>\<open>Exception\<close>, the class that the handlers
  \<^verbatim>\<open>except Exception\<close> of the source catch. Asynchronous signals that derive from
  \<^verbatim>\<open>BaseException\<close> only (interrupts, interpreter exit) are outside the model.
\<close>

datatype error =
    ZeroDivisionError
  | ValueError string
  | KeyError string
  | OSError string
  | LibraryError string

subsection \<open>The duration-clamping stage of \<^verbatim>\<open>preprocess_audio\<close>\<close>

text \<open>
  Python's slice \<^verbatim>\<open>xs[:k]\<close> for an integer \<open>k\<close>: the first \<open>k\<close> elements when
  \<open>k \<ge> 0\<close>, all but the last \<open>-k\<close> when \<open>k < 0\<close>.
\<close>

definition py_slice_to :: "'a list \<Rightarrow> int \<Rightarrow> 'a list" where
  "py_slice_to xs k =
     (if 0 \<le> k then take (nat k) xs else take (nat (int (length xs) + k)) xs)"

text \<open>\<^verbatim>\<open>np.tile(audio, reps)\<close> on a one-dimensional array.\<close>

definition np_tile :: "'a list \<Rightarrow> nat \<Rightarrow> 'a list" where
  "np_tile xs reps = concat (replicate reps xs)"

text \<open>
  Lines 65 to 71 of \<^verbatim>\<open>voice_cloner.py\<close>:
  \<^verbatim>\<open>
  min_length = target_sr * 3
  max_length = target_sr * 30
  if len(audio) < min_length:
      audio = np.tile(audio, int(np.ceil(min_length / len(audio))))[:min_length]
  if len(audio) > max_length:
      audio = audio[:max_length]
  \<close>
  \<^verbatim>\<open>min_length / len(audio)\<close> divides two Python integers: it raises
  \<^verbatim>\<open>ZeroDivisionError\<close> when the array is empty. The quotient is a float in the source and
  a rational here (the two agree on the ceiling for lengths below \<open>2^53\<close>).
\<close>

definition clamp_duration :: "int \<Rightarrow> 'a list \<Rightarrow> error + 'a list" where
  "clamp_duration target_sr audio =
     (let min_length = target_sr * 3;
          max_length = target_sr * 30
      in case (if int (length audio) < min_length
               then (if length audio = 0 then Inl ZeroDivisionError
                     else Inr (py_slice_to
                            (np_tile audio
                               (nat \<lceil>(of_int min_length :: rat) / of_int (int (length audio))\<rceil>))
                            min_length))
               else Inr audio) of
           Inl e \<Rightarrow> Inl e
         | Inr audio1 \<Rightarrow>
             Inr (if int (length audio1) > max_length
                  then py_slice_to audio1 max_length else audio1))"

subsection \<open>Paths, files and the registry's data\<close>

type_synonym path = string

text \<open>Audio samples are floating-point numbers in the source and rationals here.\<close>

type_synonym sample = rat
type_synonym signal = "sample list"

text \<open>
  One entry of \<^verbatim>\<open>self.voices\<close>, the dictionary written at lines 112 to 119 of
  \<^verbatim>\<open>voice_cloner.py\<close>.
\<close>

record profile =
  reference_path :: string
  test_sample_path :: string
  created_at :: string
  sample_rate :: int
  audio_duration :: rat
  status :: string

text \<open>
  \<^verbatim>\<open>self.voices\<close> is a Python dictionary, which keeps its keys in insertion order:
  an association list, assigned to with \<^const>\<open>AList.update\<close> (an existing key keeps its
  place, a new key goes to the end) and deleted from with \<^const>\<open>AList.delete\<close>.
\<close>

type_synonym registry = "(string \<times> profile) list"

text \<open>
  What a file holds: decoded audio (one sample list per channel, and the sample rate), the
  JSON metadata index, or anything else.
\<close>

datatype content =
    Audio "signal list" int
  | Json registry
  | Bytes string

datatype node = Dir | File content

type_synonym filesystem = "path \<rightharpoonup> node"

text \<open>
  The \<^verbatim>\<open>VoiceCloner\<close> instance (\<open>voices\<close>) together with the world it acts on: the file
  system, how many UUIDs the generator has handed out, and the calls made to the TTS model
  (text, reference clip path, language, output path).
\<close>

record state =
  voices :: registry
  fs :: filesystem
  uuid_ctr :: nat
  tts_log :: "(string \<times> path \<times> string \<times> path) list"

datatype io_op = Read path | Write path | Mkdir path | Remove path | Rmtree path

text \<open>
  The environment: the external libraries as functions that either raise or return, the
  stream of random UUIDs (as 32 hexadecimal digits each), and the operating system's
  refusals (permissions, missing parent directories, full disks), which may depend on the
  operation and on the whole file system.
\<close>

record env =
  librosa_load :: "content \<Rightarrow> int option \<Rightarrow> error + (signal \<times> int)"
  librosa_trim :: "signal \<Rightarrow> error + signal"
  librosa_normalize :: "signal \<Rightarrow> error + signal"
  librosa_resample :: "signal \<Rightarrow> int \<Rightarrow> int \<Rightarrow> error + signal"
  librosa_time_stretch :: "signal \<Rightarrow> rat \<Rightarrow> error + signal"
  torchaudio_load :: "content \<Rightarrow> error + (signal list \<times> int)"
  torchaudio_resample :: "signal list \<Rightarrow> int \<Rightarrow> int \<Rightarrow> error + signal list"
  tts_generate :: "string \<Rightarrow> content \<Rightarrow> string \<Rightarrow> bool option \<Rightarrow> error + (signal \<times> int)"
  uuid4 :: "nat \<Rightarrow> string"
  os_refuses :: "io_op \<Rightarrow> filesystem \<Rightarrow> error option"
  os_path_splitext_ext :: "string \<Rightarrow> string"

subsection \<open>File-system primitives\<close>

text \<open>
  A refused operation raises and leaves the file system as it was; an accepted one has its
  effect. Reading a missing path or a directory raises.
\<close>

definition read_file :: "env \<Rightarrow> filesystem \<Rightarrow> path \<Rightarrow> error + content" where
  "read_file env f p =
     (case os_refuses env (Read p) f of
        Some e \<Rightarrow> Inl e
      | None \<Rightarrow>
          (case f p of
             None \<Rightarrow> Inl (OSError ''FileNotFoundError'')
           | Some Dir \<Rightarrow> Inl (OSError ''IsADirectoryError'')
           | Some (File c) \<Rightarrow> Inr c))"

definition write_file :: "env \<Rightarrow> path \<Rightarrow> content \<Rightarrow> state \<Rightarrow> (error + unit) \<times> state" where
  "write_file env p c st =
     (case os_refuses env (Write p) (fs st) of
        Some e \<Rightarrow> (Inl e, st)
      | None \<Rightarrow> (Inr (), st\<lparr>fs := (fs st)(p \<mapsto> File c)\<rparr>))"

text \<open>\<^verbatim>\<open>Path.mkdir(exist_ok=True)\<close>.\<close>

definition mkdir_exist_ok :: "env \<Rightarrow> path \<Rightarrow> state \<Rightarrow> (error + unit) \<times> state" where
  "mkdir_exist_ok env d st =
     (case os_refuses env (Mkdir d) (fs st) of
        Some e \<Rightarrow> (Inl e, st)
      | None \<Rightarrow>
          (case fs st d of
             Some Dir \<Rightarrow> (Inr (), st)
           | Some (File c) \<Rightarrow> (Inl (OSError ''FileExistsError''), st)
           | None \<Rightarrow> (Inr (), st\<lparr>fs := (fs st)(d \<mapsto> Dir)\<rparr>)))"

text \<open>\<^verbatim>\<open>os.remove\<close>.\<close>

definition os_remove :: "env \<Rightarrow> path \<Rightarrow> state \<Rightarrow> (error + unit) \<times> state" where
  "os_remove env p st =
     (case os_refuses env (Remove p) (fs st) of
        Some e \<Rightarrow> (Inl e, st)
      | None \<Rightarrow>
          (case fs st p of
             Some (File c) \<Rightarrow> (Inr (), st\<lparr>fs := (fs st)(p := None)\<rparr>)
           | Some Dir \<Rightarrow> (Inl (OSError ''IsADirectoryError''), st)
           | None \<Rightarrow> (Inl (OSError ''FileNotFoundError''), st)))"

text \<open>A path lies under a directory when it is the directory or continues it after a separator.\<close>

definition path_under :: "path \<Rightarrow> path \<Rightarrow> bool" where
  "path_under d p = (p = d \<or> prefix (d @ ''/'') p)"

text \<open>\<^verbatim>\<open>shutil.rmtree\<close>: the directory and everything below it.\<close>

definition rmtree :: "env \<Rightarrow> path \<Rightarrow> state \<Rightarrow> (error + unit) \<times> state" where
  "rmtree env d st =
     (case os_refuses env (Rmtree d) (fs st) of
        Some e \<Rightarrow> (Inl e, st)
      | None \<Rightarrow>
          (case fs st d of
             Some Dir \<Rightarrow> (Inr (), st\<lparr>fs := (\<lambda>p. if path_under d p then None else fs st p)\<rparr>)
           | Some (File c) \<Rightarrow> (Inl (OSError ''NotADirectoryError''), st)
           | None \<Rightarrow> (Inl (OSError ''FileNotFoundError''), st)))"

text \<open>
  The \<^verbatim>\<open>/\<close> operator of \<^verbatim>\<open>pathlib.Path\<close>: an absolute right operand replaces the left
  one. (pathlib also drops empty and \<^verbatim>\<open>.\<close> components when it prints the path; the
  strings here are kept as joined and name the same file.)
\<close>

definition path_join :: "path \<Rightarrow> string \<Rightarrow> path" where
  "path_join d n = (if n \<noteq> [] \<and> hd n = CHR ''/'' then n else d @ ''/'' @ n)"

text \<open>\<^verbatim>\<open>Path.parent\<close> of a path with a separator: everything before the last one.\<close>

definition path_parent :: "path \<Rightarrow> path" where
  "path_parent p = rev (drop 1 (dropWhile (\<lambda>c. c \<noteq> CHR ''/'') (rev p)))"

definition voices_dir :: path where
  "voices_dir = ''voice_embeddings''"

definition voice_metadata_file :: path where
  "voice_metadata_file = path_join voices_dir ''metadata.json''"

text \<open>\<^verbatim>\<open>str(uuid.uuid4())\<close>: the 32 hexadecimal digits in groups of 8, 4, 4, 4 and 12.\<close>

definition str_uuid :: "string \<Rightarrow> string" where
  "str_uuid h = take 8 h @ ''-'' @ take 4 (drop 8 h) @ ''-'' @ take 4 (drop 12 h) @ ''-''
                @ take 4 (drop 16 h) @ ''-'' @ drop 20 h"

subsection \<open>\<^verbatim>\<open>VoiceCloner\<close>: metadata index\<close>

text \<open>
  \<^verbatim>\<open>load_voices_metadata\<close>: the index when the file exists and parses, the empty dictionary
  otherwise (a failure to read or parse is logged, not raised).
\<close>

definition load_voices_metadata :: "env \<Rightarrow> state \<Rightarrow> registry" where
  "load_voices_metadata env st =
     (if fs st voice_metadata_file \<noteq> None
      then (case read_file env (fs st) voice_metadata_file of
              Inr (Json m) \<Rightarrow> m
            | Inr (Audio w r) \<Rightarrow> []
            | Inr (Bytes b) \<Rightarrow> []
            | Inl e \<Rightarrow> [])
      else [])"

text \<open>\<^verbatim>\<open>save_voices_metadata\<close>: rewrites the index in full; a failure is logged, not raised.\<close>

definition save_voices_metadata :: "env \<Rightarrow> state \<Rightarrow> state" where
  "save_voices_metadata env st =
     (case write_file env voice_metadata_file (Json (voices st)) st of
        (Inr u, st') \<Rightarrow> st'
      | (Inl e, st') \<Rightarrow> st')"

text \<open>
  \<^verbatim>\<open>__init__\<close>, after the model is loaded: creates the registry directory (an exception
  here propagates) and loads the index.
\<close>

definition init_cloner :: "env \<Rightarrow> state \<Rightarrow> (error + unit) \<times> state" where
  "init_cloner env st =
     (case mkdir_exist_ok env voices_dir st of
        (Inl e, st1) \<Rightarrow> (Inl e, st1)
      | (Inr u, st1) \<Rightarrow> (Inr (), st1\<lparr>voices := load_voices_metadata env st1\<rparr>))"

subsection \<open>\<^verbatim>\<open>VoiceCloner.preprocess_audio\<close>\<close>

text \<open>\<^verbatim>\<open>audio_path.replace('.', '_processed.')\<close>: every dot of the path is replaced.\<close>

definition py_replace_dot :: "string \<Rightarrow> string" where
  "py_replace_dot s = concat (map (\<lambda>c. if c = CHR ''.'' then ''_processed.'' else [c]) s)"

text \<open>The body of the \<^verbatim>\<open>try\<close> block, lines 58 to 75.\<close>

definition preprocess_body :: "env \<Rightarrow> state \<Rightarrow> path \<Rightarrow> int \<Rightarrow> (error + path) \<times> state" where
  "preprocess_body env st audio_path target_sr =
     (case read_file env (fs st) audio_path of
        Inl e \<Rightarrow> (Inl e, st)
      | Inr c \<Rightarrow>
     (case librosa_load env c None of
        Inl e \<Rightarrow> (Inl e, st)
      | Inr (audio0, sr) \<Rightarrow>
     (case librosa_trim env audio0 of
        Inl e \<Rightarrow> (Inl e, st)
      | Inr audio1 \<Rightarrow>
     (case librosa_normalize env audio1 of
        Inl e \<Rightarrow> (Inl e, st)
      | Inr audio2 \<Rightarrow>
     (case (if sr \<noteq> target_sr then librosa_resample env audio2 sr target_sr else Inr audio2) of
        Inl e \<Rightarrow> (Inl e, st)
      | Inr audio3 \<Rightarrow>
     (case clamp_duration target_sr audio3 of
        Inl e \<Rightarrow> (Inl e, st)
      | Inr audio4 \<Rightarrow>
     (let processed_path = py_replace_dot audio_path
      in case write_file env processed_path (Audio [audio4] target_sr) st of
           (Inl e, st') \<Rightarrow> (Inl e, st')
         | (Inr u, st') \<Rightarrow> (Inr processed_path, st'))))))))"

text \<open>The whole method: \<^verbatim>\<open>except Exception\<close> logs and returns \<^verbatim>\<open>audio_path\<close>.\<close>

definition preprocess_audio :: "env \<Rightarrow> state \<Rightarrow> path \<Rightarrow> int \<Rightarrow> (error + path) \<times> state" where
  "preprocess_audio env st audio_path target_sr =
     (case preprocess_body env st audio_path target_sr of
        (Inr p, st') \<Rightarrow> (Inr p, st')
      | (Inl e, st') \<Rightarrow> (Inr audio_path, st'))"

subsection \<open>\<^verbatim>\<open>VoiceCloner.create_voice_embedding\<close>\<close>

text \<open>
  A waveform tensor of shape (channels, frames) is a list of channels, all of one length
  (a tensor without channels counts as having no frames).
  \<^verbatim>\<open>torch.mean(waveform, dim=0, keepdim=True)\<close> averages the channels sample by sample.
\<close>

definition frames :: "signal list \<Rightarrow> nat" where
  "frames w = (case w of [] \<Rightarrow> 0 | c # cs \<Rightarrow> length c)"

definition mean_channels :: "signal list \<Rightarrow> signal list" where
  "mean_channels w =
     [map (\<lambda>i. (\<Sum>c\<leftarrow>w. c ! i) / of_nat (length w)) [0..<frames w]]"

text \<open>
  \<^verbatim>\<open>self.tts.tts_to_file\<close>: reads the reference clip, runs the model, writes the output
  file. The call is recorded in \<open>tts_log\<close>.
\<close>

definition tts_to_file ::
  "env \<Rightarrow> string \<Rightarrow> path \<Rightarrow> string \<Rightarrow> path \<Rightarrow> bool option \<Rightarrow> state \<Rightarrow> (error + unit) \<times> state"
where
  "tts_to_file env text speaker_wav language file_path split_sentences st =
     (let st1 = st\<lparr>tts_log := tts_log st @ [(text, speaker_wav, language, file_path)]\<rparr>
      in case read_file env (fs st1) speaker_wav of
           Inl e \<Rightarrow> (Inl e, st1)
         | Inr ref \<Rightarrow>
        (case tts_generate env text ref language split_sentences of
           Inl e \<Rightarrow> (Inl e, st1)
         | Inr (out, r) \<Rightarrow> write_file env file_path (Audio [out] r) st1))"

definition test_text :: string where
  "test_text = ''This is a test of the voice cloning system.''"

text \<open>The body of the \<^verbatim>\<open>try\<close> block, lines 82 to 126. State changes made before an
  exception stay made.\<close>

definition create_body :: "env \<Rightarrow> state \<Rightarrow> path \<Rightarrow> string \<Rightarrow> (error + bool) \<times> state" where
  "create_body env st audio_path speaker_name =
     (case preprocess_audio env st audio_path 22050 of
        (Inl e, st1) \<Rightarrow> (Inl e, st1)
      | (Inr processed_audio_path, st1) \<Rightarrow>
     (let voice_dir = path_join voices_dir speaker_name
      in case mkdir_exist_ok env voice_dir st1 of
        (Inl e, st2) \<Rightarrow> (Inl e, st2)
      | (Inr u, st2) \<Rightarrow>
     (let ref_path = path_join voice_dir ''reference.wav''
      in case read_file env (fs st2) processed_audio_path of
        Inl e \<Rightarrow> (Inl e, st2)
      | Inr c \<Rightarrow>
     (case torchaudio_load env c of
        Inl e \<Rightarrow> (Inl e, st2)
      | Inr (waveform0, wav_rate) \<Rightarrow>
     (let waveform1 = (if length waveform0 > 1 then mean_channels waveform0 else waveform0)
      in case (if wav_rate \<noteq> 22050
               then torchaudio_resample env waveform1 wav_rate 22050
               else Inr waveform1) of
        Inl e \<Rightarrow> (Inl e, st2)
      | Inr waveform \<Rightarrow>
     (case write_file env ref_path (Audio waveform 22050) st2 of
        (Inl e, st3) \<Rightarrow> (Inl e, st3)
      | (Inr u, st3) \<Rightarrow>
     (let test_output = path_join voice_dir ''test_sample.wav''
      in case tts_to_file env test_text ref_path ''en'' test_output None st3 of
        (Inl e, st4) \<Rightarrow> (Inl e, st4)
      | (Inr u, st4) \<Rightarrow>
     (let st5 = st4\<lparr>voices :=
                    AList.update speaker_name
                      \<lparr>reference_path = ref_path,
                       test_sample_path = test_output,
                       created_at = str_uuid (uuid4 env (uuid_ctr st4)),
                       sample_rate = 22050,
                       audio_duration = of_nat (frames waveform) / 22050,
                       status = ''active''\<rparr>
                      (voices st4),
                    uuid_ctr := Suc (uuid_ctr st4)\<rparr>;
          st6 = save_voices_metadata env st5
      in case (if processed_audio_path \<noteq> audio_path \<and> fs st6 processed_audio_path \<noteq> None
               then os_remove env processed_audio_path st6
               else (Inr (), st6)) of
        (Inl e, st7) \<Rightarrow> (Inl e, st7)
      | (Inr u, st7) \<Rightarrow> (Inr True, st7)))))))))"

text \<open>The whole method: \<^verbatim>\<open>except Exception\<close> logs and returns \<^verbatim>\<open>False\<close>.\<close>

definition create_voice_embedding ::
  "env \<Rightarrow> state \<Rightarrow> path \<Rightarrow> string \<Rightarrow> (error + bool) \<times> state"
where
  "create_voice_embedding env st audio_path speaker_name =
     (case create_body env st audio_path speaker_name of
        (Inr b, st') \<Rightarrow> (Inr b, st')
      | (Inl e, st') \<Rightarrow> (Inr False, st'))"

subsection \<open>\<^verbatim>\<open>VoiceCloner\<close>: lookup, synthesis and deletion\<close>

definition has_speaker :: "state \<Rightarrow> string \<Rightarrow> bool" where
  "has_speaker st speaker_name = (speaker_name \<in> set (map fst (voices st)))"

definition list_speakers :: "state \<Rightarrow> string list" where
  "list_speakers st = map fst (voices st)"

text \<open>
  \<^verbatim>\<open>_adjust_speed\<close>: \<^verbatim>\<open>librosa.load\<close> with its default rate 22050, the time stretch, and
  the write back to the same path; \<^verbatim>\<open>except Exception\<close> logs a warning and returns.
\<close>

definition adjust_speed_body :: "env \<Rightarrow> state \<Rightarrow> path \<Rightarrow> rat \<Rightarrow> (error + unit) \<times> state" where
  "adjust_speed_body env st audio_path speed =
     (case read_file env (fs st) audio_path of
        Inl e \<Rightarrow> (Inl e, st)
      | Inr c \<Rightarrow>
     (case librosa_load env c (Some 22050) of
        Inl e \<Rightarrow> (Inl e, st)
      | Inr (audio, sr) \<Rightarrow>
     (case librosa_time_stretch env audio speed of
        Inl e \<Rightarrow> (Inl e, st)
      | Inr audio_fast \<Rightarrow> write_file env audio_path (Audio [audio_fast] sr) st)))"

definition adjust_speed :: "env \<Rightarrow> state \<Rightarrow> path \<Rightarrow> rat \<Rightarrow> (error + unit) \<times> state" where
  "adjust_speed env st audio_path speed =
     (case adjust_speed_body env st audio_path speed of
        (Inr u, st') \<Rightarrow> (Inr u, st')
      | (Inl e, st') \<Rightarrow> (Inr (), st'))"

text \<open>
  \<^verbatim>\<open>synthesize\<close>, lines 131 to 160. The membership test and the creation of the output
  directory are outside the \<^verbatim>\<open>try\<close> block; the handler of the block logs and re-raises.
\<close>

definition synthesize ::
  "env \<Rightarrow> state \<Rightarrow> string \<Rightarrow> string \<Rightarrow> string \<Rightarrow> rat \<Rightarrow> (error + path) \<times> state"
where
  "synthesize env st text speaker_name language speed =
     (if speaker_name \<notin> set (map fst (voices st))
      then (Inl (ValueError (''Speaker '' @ [CHR 0x27] @ speaker_name @ [CHR 0x27] @ '' not found'')), st)
      else
     (case map_of (voices st) speaker_name of
        None \<Rightarrow> (Inl (KeyError speaker_name), st)
      | Some entry \<Rightarrow>
     (let ref_path = reference_path entry;
          output_filename =
            ''output_'' @ speaker_name @ ''_'' @ take 8 (uuid4 env (uuid_ctr st)) @ ''.wav'';
          st1 = st\<lparr>uuid_ctr := Suc (uuid_ctr st)\<rparr>;
          output_path = path_join ''outputs'' output_filename
      in case mkdir_exist_ok env (path_parent output_path) st1 of
        (Inl e, st2) \<Rightarrow> (Inl e, st2)
      | (Inr u, st2) \<Rightarrow>
     (case tts_to_file env text ref_path language output_path (Some True) st2 of
        (Inl e, st3) \<Rightarrow> (Inl e, st3)
      | (Inr u, st3) \<Rightarrow>
     (case (if speed \<noteq> 1 then adjust_speed env st3 output_path speed else (Inr (), st3)) of
        (Inl e, st4) \<Rightarrow> (Inl e, st4)
      | (Inr u, st4) \<Rightarrow> (Inr output_path, st4))))))"

text \<open>
  \<^verbatim>\<open>delete_speaker\<close>, lines 186 to 200: an unknown name returns \<^verbatim>\<open>False\<close> before the
  \<^verbatim>\<open>try\<close> block; inside it the directory is removed first, the entry second.
\<close>

definition delete_body :: "env \<Rightarrow> state \<Rightarrow> string \<Rightarrow> (error + bool) \<times> state" where
  "delete_body env st speaker_name =
     (let voice_dir = path_join voices_dir speaker_name
      in case (if fs st voice_dir \<noteq> None then rmtree env voice_dir st else (Inr (), st)) of
        (Inl e, st1) \<Rightarrow> (Inl e, st1)
      | (Inr u, st1) \<Rightarrow>
          (let st2 = st1\<lparr>voices := AList.delete speaker_name (voices st1)\<rparr>;
               st3 = save_voices_metadata env st2
           in (Inr True, st3)))"

definition delete_speaker :: "env \<Rightarrow> state \<Rightarrow> string \<Rightarrow> (error + bool) \<times> state" where
  "delete_speaker env st speaker_name =
     (if speaker_name \<notin> set (map fst (voices st)) then (Inr False, st)
      else (case delete_body env st speaker_name of
              (Inr b, st') \<Rightarrow> (Inr b, st')
            | (Inl e, st') \<Rightarrow> (Inr False, st')))"

subsection \<open>The request handlers of \<^verbatim>\<open>app.py\<close>\<close>

text \<open>
  The handlers are modelled as the functions they are: their arguments are the form fields
  after the framework has parsed and validated them. The text of an error is kept as the
  pieces of its f-string: a literal, an interpolated string, the printed form of a list of
  strings, and the printed form of an exception.
\<close>

datatype part =
    Lit string
  | Str string
  | Repr_list "string list"
  | Str_error error
  | Str_http int "part list"

datatype http_exception = HTTPException (status_code: int) (detail: "part list")

datatype response =
    JSONResponse "(string \<times> part list) list"
  | FileResponse path string string

record upload =
  content_type :: "string option"
  filename :: string
  content :: content
  nbytes :: nat

text \<open>
  The module global \<^verbatim>\<open>voice_cloner\<close> is \<^verbatim>\<open>None\<close> until the startup event has run: the
  handlers take a \<open>state option\<close> and touch nothing when it is \<open>None\<close>. The clean-up of
  files older than one hour, which the handlers schedule to run after the response, depends
  on the clock and is not modelled; it only removes files of \<^verbatim>\<open>uploads\<close> and
  \<^verbatim>\<open>outputs\<close>.
\<close>

text \<open>The \<^verbatim>\<open>try\<close> block of \<^verbatim>\<open>clone_voice\<close>, lines 126 to 153, without its \<^verbatim>\<open>finally\<close>.\<close>

definition clone_try ::
  "env \<Rightarrow> state \<Rightarrow> path \<Rightarrow> upload \<Rightarrow> string \<Rightarrow> (http_exception + response) \<times> state"
where
  "clone_try env st file_path audio_file speaker_name =
     (case write_file env file_path (content audio_file) st of
        (Inl e, st1) \<Rightarrow>
          (Inl (HTTPException 500 [Lit ''Voice cloning failed: '', Str_error e]), st1)
      | (Inr u, st1) \<Rightarrow>
     (case create_voice_embedding env st1 file_path speaker_name of
        (Inl e, st2) \<Rightarrow>
          (Inl (HTTPException 500 [Lit ''Voice cloning failed: '', Str_error e]), st2)
      | (Inr success, st2) \<Rightarrow>
          (if success
           then (Inr (JSONResponse
                   [(''message'', [Lit ''Voice '', Lit [CHR 0x27], Str speaker_name,
                                   Lit [CHR 0x27], Lit '' cloned successfully'']),
                    (''speaker_id'', [Str speaker_name]),
                    (''status'', [Lit ''success''])]), st2)
           else (Inl (HTTPException 500
                   [Lit ''Voice cloning failed: '',
                    Str_http 500 [Lit ''Voice cloning failed'']]), st2))))"

definition clone_voice ::
  "env \<Rightarrow> state option \<Rightarrow> upload \<Rightarrow> string \<Rightarrow> bool
     \<Rightarrow> (http_exception + response) \<times> state option"
where
  "clone_voice env voice_cloner audio_file speaker_name overwrite =
     (case voice_cloner of
        None \<Rightarrow> (Inl (HTTPException 503 [Lit ''Voice cloner not initialized'']), voice_cloner)
      | Some st \<Rightarrow>
     (if (case content_type audio_file of
            None \<Rightarrow> True
          | Some ct \<Rightarrow> ct = [] \<or> \<not> prefix ''audio/'' ct)
      then (Inl (HTTPException 400 [Lit ''File must be audio format (WAV, MP3, FLAC)'']),
            voice_cloner)
      else if has_speaker st speaker_name \<and> \<not> overwrite
      then (Inl (HTTPException 409
                  [Lit ''Speaker '', Lit [CHR 0x27], Str speaker_name, Lit [CHR 0x27],
                   Lit '' already exists. Use overwrite=true to replace.'']),
            voice_cloner)
      else if nbytes audio_file > 50 * 1024 * 1024
      then (Inl (HTTPException 413 [Lit ''File too large. Maximum size is 50MB'']),
            voice_cloner)
      else
     (let file_id = str_uuid (uuid4 env (uuid_ctr st));
          st1 = st\<lparr>uuid_ctr := Suc (uuid_ctr st)\<rparr>;
          file_extension =
            (if os_path_splitext_ext env (filename audio_file) = [] then ''.wav''
             else os_path_splitext_ext env (filename audio_file));
          file_path = ''uploads/'' @ file_id @ ''_'' @ speaker_name @ file_extension
      in case clone_try env st1 file_path audio_file speaker_name of
           (r, st2) \<Rightarrow>
             (let st3 = (if fs st2 file_path \<noteq> None
                         then (case os_remove env file_path st2 of
                                 (Inr u, st') \<Rightarrow> st'
                               | (Inl e, st') \<Rightarrow> st')
                         else st2)
              in (r, Some st3)))))"

text \<open>\<^verbatim>\<open>str.strip()\<close> on ASCII text: white space is removed at both ends.\<close>

definition py_isspace :: "char \<Rightarrow> bool" where
  "py_isspace c = (c \<in> set [CHR '' '', CHR 0x09, CHR 0x0A, CHR 0x0B, CHR 0x0C, CHR 0x0D,
                            CHR 0x1C, CHR 0x1D, CHR 0x1E, CHR 0x1F])"

definition py_strip :: "string \<Rightarrow> string" where
  "py_strip s = rev (dropWhile py_isspace (rev (dropWhile py_isspace s)))"

definition synthesize_speech ::
  "env \<Rightarrow> state option \<Rightarrow> string \<Rightarrow> string \<Rightarrow> string \<Rightarrow> rat
     \<Rightarrow> (http_exception + response) \<times> state option"
where
  "synthesize_speech env voice_cloner text speaker_name language speed =
     (case voice_cloner of
        None \<Rightarrow> (Inl (HTTPException 503 [Lit ''Voice cloner not initialized'']), voice_cloner)
      | Some st \<Rightarrow>
     (if \<not> has_speaker st speaker_name
      then (let available_speakers = list_speakers st
            in (Inl (HTTPException 404
                       [Lit ''Speaker '', Lit [CHR 0x27], Str speaker_name, Lit [CHR 0x27],
                        Lit '' not found. Available speakers: '',
                        Repr_list available_speakers]),
                voice_cloner))
      else if length (py_strip text) = 0
      then (Inl (HTTPException 400 [Lit ''Text cannot be empty'']), voice_cloner)
      else
     (case synthesize env st text speaker_name language speed of
        (Inl e, st1) \<Rightarrow>
          (Inl (HTTPException 500 [Lit ''Speech synthesis failed: '', Str_error e]), Some st1)
      | (Inr output_file, st1) \<Rightarrow>
          (let download_filename =
                 ''speech_'' @ speaker_name @ ''_'' @ take 8 (uuid4 env (uuid_ctr st1)) @ ''.wav'';
               st2 = st1\<lparr>uuid_ctr := Suc (uuid_ctr st1)\<rparr>
           in (Inr (FileResponse output_file ''audio/wav'' download_filename), Some st2)))))"

subsection \<open>Names for terms of the source\<close>

text \<open>
  \<^verbatim>\<open>self.voices_dir / speaker_name\<close>, the directory of a speaker (lines 83 and 190 of
  \<^verbatim>\<open>voice_cloner.py\<close>).
\<close>

definition voice_dir_of :: "string \<Rightarrow> path" where
  "voice_dir_of speaker_name = path_join voices_dir speaker_name"

text \<open>
  The dictionary stored at lines 112 to 119, for the \<open>k\<close>-th UUID and the waveform saved as
  the reference clip.
\<close>

definition new_profile :: "env \<Rightarrow> nat \<Rightarrow> string \<Rightarrow> signal list \<Rightarrow> profile" where
  "new_profile env k speaker_name waveform =
     \<lparr>reference_path = path_join (voice_dir_of speaker_name) ''reference.wav'',
      test_sample_path = path_join (voice_dir_of speaker_name) ''test_sample.wav'',
      created_at = str_uuid (uuid4 env k),
      sample_rate = 22050,
      audio_duration = of_nat (frames waveform) / 22050,
      status = ''active''\<rparr>"

text \<open>\<^verbatim>\<open>Path("outputs") / output_filename\<close>, lines 136 and 137.\<close>

definition synth_output_path :: "env \<Rightarrow> state \<Rightarrow> string \<Rightarrow> path" where
  "synth_output_path env st speaker_name =
     path_join ''outputs''
       (''output_'' @ speaker_name @ ''_'' @ take 8 (uuid4 env (uuid_ctr st)) @ ''.wav'')"

text \<open>\<^verbatim>\<open>file_path\<close> of \<^verbatim>\<open>clone_voice\<close>, lines 122 to 124 of \<^verbatim>\<open>app.py\<close>.\<close>

definition upload_path :: "env \<Rightarrow> state \<Rightarrow> upload \<Rightarrow> string \<Rightarrow> path" where
  "upload_path env st audio_file speaker_name =
     ''uploads/'' @ str_uuid (uuid4 env (uuid_ctr st)) @ ''_'' @ speaker_name @
       (if os_path_splitext_ext env (filename audio_file) = [] then ''.wav''
        else os_path_splitext_ext env (filename audio_file))"

subsection \<open>The registry invariant and the reachable states\<close>

text \<open>
  The identifiers \<^verbatim>\<open>str(uuid.uuid4())\<close> handed out so far, and what every entry written
  by \<^verbatim>\<open>create_voice_embedding\<close> looks like. The invariant speaks of the dictionary in
  memory and of the index file, from which a restarted process loads its dictionary.
\<close>

definition issued_ids :: "env \<Rightarrow> nat \<Rightarrow> string list" where
  "issued_ids env k = map (\<lambda>j. str_uuid (uuid4 env j)) [0..<k]"

definition good_profile :: "env \<Rightarrow> nat \<Rightarrow> profile \<Rightarrow> bool" where
  "good_profile env k p =
     (status p = ''active'' \<and> sample_rate p = 22050 \<and> created_at p \<in> set (issued_ids env k))"

definition good_registry :: "env \<Rightarrow> nat \<Rightarrow> registry \<Rightarrow> bool" where
  "good_registry env k m = (distinct (map fst m) \<and> list_all (\<lambda>(n, p). good_profile env k p) m)"

definition good_index_file :: "env \<Rightarrow> nat \<Rightarrow> filesystem \<Rightarrow> bool" where
  "good_index_file env k f =
     (case f voice_metadata_file of
        Some (File (Json m)) \<Rightarrow> good_registry env k m
      | Some (File (Audio w r)) \<Rightarrow> True
      | Some (File (Bytes b)) \<Rightarrow> True
      | Some Dir \<Rightarrow> True
      | None \<Rightarrow> True)"

definition registry_inv :: "env \<Rightarrow> state \<Rightarrow> bool" where
  "registry_inv env st =
     (good_registry env (uuid_ctr st) (voices st) \<and> good_index_file env (uuid_ctr st) (fs st))"

text \<open>
  The states the operations produce: a first start on a file system without an index file,
  then any sequence of \<^verbatim>\<open>create_voice_embedding\<close>, \<^verbatim>\<open>synthesize\<close>,
  \<^verbatim>\<open>delete_speaker\<close>, restarts of the process, and changes made from outside the class
  (uploads written and removed by the handlers, the clean-up task, further UUIDs drawn by
  the handlers) to any file but the index.
\<close>

inductive reachable :: "env \<Rightarrow> state \<Rightarrow> bool" for env :: env where
  fresh: "fs st0 voice_metadata_file = None \<Longrightarrow> init_cloner env st0 = (Inr (), st)
            \<Longrightarrow> reachable env st"
| create: "reachable env st \<Longrightarrow> st' = snd (create_voice_embedding env st audio_path speaker_name)
            \<Longrightarrow> reachable env st'"
| synth: "reachable env st \<Longrightarrow> st' = snd (synthesize env st t speaker_name language speed)
            \<Longrightarrow> reachable env st'"
| delete: "reachable env st \<Longrightarrow> st' = snd (delete_speaker env st speaker_name)
            \<Longrightarrow> reachable env st'"
| restart: "reachable env st \<Longrightarrow> init_cloner env st = (Inr (), st') \<Longrightarrow> reachable env st'"
| outside: "reachable env st \<Longrightarrow> p \<noteq> voice_metadata_file \<Longrightarrow> uuid_ctr st \<le> k
            \<Longrightarrow> reachable env (st\<lparr>fs := (fs st)(p := x), uuid_ctr := k\<rparr>)"

subsection \<open>A concrete environment and concrete states\<close>

text \<open>
  Libraries that succeed on audio content: the loader takes the first channel, normalising
  rejects an empty signal, and the time stretch rejects a rate that is not positive and
  otherwise picks sample \<open>\<lfloor>i * rate\<rfloor>\<close> for each of the \<open>\<lfloor>length / rate\<rfloor>\<close> output
  positions. The generator always returns the same UUID, and the operating system refuses
  nothing.
\<close>

definition demo_env :: env where
  "demo_env =
     \<lparr>librosa_load = (\<lambda>c sr. case c of
                         Audio w r \<Rightarrow>
                           (case w of [] \<Rightarrow> Inl (LibraryError ''no channels'')
                            | ch # chs \<Rightarrow> Inr (ch, (case sr of None \<Rightarrow> r | Some r' \<Rightarrow> r')))
                       | Json m \<Rightarrow> Inl (LibraryError ''NoBackendError'')
                       | Bytes b \<Rightarrow> Inl (LibraryError ''NoBackendError'')),
      librosa_trim = (\<lambda>a. Inr a),
      librosa_normalize = (\<lambda>a. if a = [] then Inl (ValueError ''zero-size array'') else Inr a),
      librosa_resample = (\<lambda>a r r'. Inr a),
      librosa_time_stretch = (\<lambda>a rate.
                         if rate \<le> 0 then Inl (LibraryError ''rate must be a positive number'')
                         else Inr (map (\<lambda>i. a ! nat \<lfloor>of_nat i * rate\<rfloor>)
                                     [0..<nat \<lfloor>of_nat (length a) / rate\<rfloor>])),
      torchaudio_load = (\<lambda>c. case c of
                         Audio w r \<Rightarrow> Inr (w, r)
                       | Json m \<Rightarrow> Inl (LibraryError ''unknown format'')
                       | Bytes b \<Rightarrow> Inl (LibraryError ''unknown format'')),
      torchaudio_resample = (\<lambda>w r r'. Inr w),
      tts_generate = (\<lambda>t ref lang split. Inr ([1, 2, 3, 4], 24000)),
      uuid4 = (\<lambda>k. ''0123456789abcdef0123456789abcdef''),
      os_refuses = (\<lambda>operation f. None),
      os_path_splitext_ext = (\<lambda>name. ''.wav'')\<rparr>"

text \<open>The same, on an operating system that refuses to overwrite an existing file.\<close>

definition overwrite_refusing_env :: env where
  "overwrite_refusing_env =
     demo_env\<lparr>os_refuses :=
       (\<lambda>operation f. case operation of
           Write p \<Rightarrow> (if f p = None then None else Some (OSError ''PermissionError''))
         | Read p \<Rightarrow> None
         | Mkdir p \<Rightarrow> None
         | Remove p \<Rightarrow> None
         | Rmtree p \<Rightarrow> None)\<rparr>"

text \<open>A fresh installation with some clips on disk, and a registry that holds one speaker.\<close>

definition demo_state :: state where
  "demo_state =
     \<lparr>voices = [],
      fs = [''voice_embeddings'' \<mapsto> Dir,
            ''clip.wav'' \<mapsto> File (Audio [replicate 66150 0] 22050),
            ''corrupt.wav'' \<mapsto> File (Bytes ''RIFF''),
            ''in.dir'' \<mapsto> Dir,
            ''in_processed.dir'' \<mapsto> Dir,
            ''in.dir/clip.wav'' \<mapsto> File (Audio [[1, 2, 3, 4]] 1)],
      uuid_ctr = 0,
      tts_log = []\<rparr>"

definition alice_profile :: profile where
  "alice_profile =
     \<lparr>reference_path = ''voice_embeddings/alice/reference.wav'',
      test_sample_path = ''voice_embeddings/alice/test_sample.wav'',
      created_at = ''01234567-89ab-cdef-0123-456789abcdef'',
      sample_rate = 22050,
      audio_duration = 3,
      status = ''active''\<rparr>"

definition alice_state :: state where
  "alice_state =
     \<lparr>voices = [(''alice'', alice_profile)],
      fs = [''voice_embeddings'' \<mapsto> Dir,
            ''voice_embeddings/metadata.json'' \<mapsto> File (Json [(''alice'', alice_profile)]),
            ''voice_embeddings/alice'' \<mapsto> Dir,
            ''voice_embeddings/alice/reference.wav'' \<mapsto> File (Audio [replicate 66150 0] 22050),
            ''voice_embeddings/alice/test_sample.wav'' \<mapsto> File (Audio [[1, 2, 3, 4]] 24000),
            ''outputs'' \<mapsto> Dir],
      uuid_ctr = 1,
      tts_log = []\<rparr>"

definition text_upload :: upload where
  "text_upload =
     \<lparr>content_type = Some ''text/plain'', filename = ''notes.txt'',
      content = Bytes ''hello'', nbytes = 5\<rparr>"

definition wav_upload :: upload where
  "wav_upload =
     \<lparr>content_type = Some ''audio/wav'', filename = ''clip.wav'',
      content = Audio [replicate 66150 0] 22050, nbytes = 132344\<rparr>"

section \<open>Properties\<close>

subsection \<open>The duration-clamping stage\<close>







subsection \<open>The outcomes of the primitives\<close>

lemma write_file_cases:
  "write_file env p c st = (r, st') \<Longrightarrow>
     (r = Inr () \<and> st' = st\<lparr>fs := (fs st)(p \<mapsto> File c)\<rparr>) \<or> ((\<exists>e. r = Inl e) \<and> st' = st)"
  by (auto simp: write_file_def split: option.splits)

lemma mkdir_cases:
  "mkdir_exist_ok env d st = (r, st') \<Longrightarrow>
     (r = Inr () \<and> (st' = st \<or> st' = st\<lparr>fs := (fs st)(d \<mapsto> Dir)\<rparr>)) \<or> ((\<exists>e. r = Inl e) \<and> st' = st)"
  by (auto simp: mkdir_exist_ok_def split: option.splits node.splits)

lemma os_remove_cases:
  "os_remove env p st = (r, st') \<Longrightarrow>
     (r = Inr () \<and> st' = st\<lparr>fs := (fs st)(p := None)\<rparr>) \<or> ((\<exists>e. r = Inl e) \<and> st' = st)"
  by (auto simp: os_remove_def split: option.splits node.splits)

lemma rmtree_cases:
  "rmtree env d st = (r, st') \<Longrightarrow>
     (r = Inr () \<and> st' = st\<lparr>fs := (\<lambda>p. if path_under d p then None else fs st p)\<rparr>)
     \<or> ((\<exists>e. r = Inl e) \<and> st' = st)"
  by (auto simp: rmtree_def split: option.splits node.splits)

lemma tts_to_file_cases:
  "tts_to_file env t w l p s st = (r, st') \<Longrightarrow>
     (\<exists>ref out rate. r = Inr () \<and> read_file env (fs st) w = Inr ref
         \<and> tts_generate env t ref l s = Inr (out, rate)
         \<and> st' = st\<lparr>tts_log := tts_log st @ [(t, w, l, p)],
                     fs := (fs st)(p \<mapsto> File (Audio [out] rate))\<rparr>)
     \<or> ((\<exists>e. r = Inl e) \<and> st' = st\<lparr>tts_log := tts_log st @ [(t, w, l, p)]\<rparr>)"
  by (auto simp: tts_to_file_def Let_def write_file_def split: sum.splits option.splits prod.splits)

lemma preprocess_body_cases:
  "preprocess_body env st a sr = (r, st') \<Longrightarrow>
     (\<exists>audio. r = Inr (py_replace_dot a)
         \<and> st' = st\<lparr>fs := (fs st)(py_replace_dot a \<mapsto> File (Audio [audio] sr))\<rparr>)
     \<or> ((\<exists>e. r = Inl e) \<and> st' = st)"
  by (auto simp: preprocess_body_def Let_def write_file_def split: sum.splits option.splits prod.splits if_splits)

lemma preprocess_audio_cases:
  "preprocess_audio env st a sr = (r, st') \<Longrightarrow>
     (\<exists>audio. r = Inr (py_replace_dot a)
         \<and> st' = st\<lparr>fs := (fs st)(py_replace_dot a \<mapsto> File (Audio [audio] sr))\<rparr>)
     \<or> (r = Inr a \<and> st' = st)"
  unfolding preprocess_audio_def
  by (cases "preprocess_body env st a sr") (auto dest!: preprocess_body_cases split: sum.splits)

lemma save_cases:
  "save_voices_metadata env st = st \<or>
   save_voices_metadata env st = st\<lparr>fs := (fs st)(voice_metadata_file \<mapsto> File (Json (voices st)))\<rparr>"
  by (auto simp: save_voices_metadata_def write_file_def split: option.splits)

lemma index_after_save:
  "fs (save_voices_metadata env st) voice_metadata_file
     = Some (File (Json (voices (save_voices_metadata env st)))) \<or>
   os_refuses env (Write voice_metadata_file) (fs (save_voices_metadata env st)) \<noteq> None"
  by (auto simp: save_voices_metadata_def write_file_def split: option.splits)

lemma fs_after_save:
  "p \<noteq> voice_metadata_file \<Longrightarrow> fs (save_voices_metadata env st) p = fs st p"
  using save_cases [of env st] by auto

lemma voices_after_save: "voices (save_voices_metadata env st) = voices st"
  using save_cases [of env st] by auto

lemma uuid_after_save: "uuid_ctr (save_voices_metadata env st) = uuid_ctr st"
  using save_cases [of env st] by auto

lemma preprocess_fail_returns_original:
  assumes "fst (preprocess_body env st a sr) = Inl e"
  shows "preprocess_audio env st a sr = (Inr a, st)"
proof -
  obtain s where b: "preprocess_body env st a sr = (Inl e, s)"
    using assms by (cases "preprocess_body env st a sr") auto
  from preprocess_body_cases [OF b] have "s = st" by auto
  with b show ?thesis by (simp add: preprocess_audio_def)
qed

subsection \<open>A successful registration\<close>

lemma reference_then_tts:
  assumes "write_file env ref (Audio w 22050) st2 = (Inr (), st3)"
    and "tts_to_file env t ref l tst s st3 = (Inr (), st4)"
  shows "\<exists>g r. tts_generate env t (Audio w 22050) l s = Inr (g, r)
           \<and> st4 = st2\<lparr>fs := (fs st2)(ref \<mapsto> File (Audio w 22050), tst \<mapsto> File (Audio [g] r)),
                        tts_log := tts_log st2 @ [(t, ref, l, tst)]\<rparr>"
proof -
  from write_file_cases [OF assms(1)]
  have st3: "st3 = st2\<lparr>fs := (fs st2)(ref \<mapsto> File (Audio w 22050))\<rparr>" by auto
  from tts_to_file_cases [OF assms(2)] obtain c g r where
    rd: "read_file env (fs st3) ref = Inr c" and gen: "tts_generate env t c l s = Inr (g, r)"
    and st4: "st4 = st3\<lparr>tts_log := tts_log st3 @ [(t, ref, l, tst)],
                         fs := (fs st3)(tst \<mapsto> File (Audio [g] r))\<rparr>"
    by auto
  from rd have "c = Audio w 22050"
    by (auto simp: st3 read_file_def split: option.splits)
  with gen st4 st3 show ?thesis by simp
qed

lemma create_body_success:
  assumes "create_body env st a n = (Inr b, st')"
  shows "b \<and> (\<exists>pp st1 st2 w g r st6.
            preprocess_audio env st a 22050 = (Inr pp, st1)
          \<and> mkdir_exist_ok env (voice_dir_of n) st1 = (Inr (), st2)
          \<and> tts_generate env test_text (Audio w 22050) ''en'' None = Inr (g, r)
          \<and> st6 = save_voices_metadata env
                (st2\<lparr>fs := (fs st2)(path_join (voice_dir_of n) ''reference.wav'' \<mapsto> File (Audio w 22050),
                                     path_join (voice_dir_of n) ''test_sample.wav'' \<mapsto> File (Audio [g] r)),
                     tts_log := tts_log st2 @ [(test_text, path_join (voice_dir_of n) ''reference.wav'', ''en'',
                                              path_join (voice_dir_of n) ''test_sample.wav'')],
                     voices := AList.update n (new_profile env (uuid_ctr st2) n w) (voices st2),
                     uuid_ctr := Suc (uuid_ctr st2)\<rparr>)
          \<and> (st' = st6 \<or> st' = st6\<lparr>fs := (fs st6)(pp := None)\<rparr>))"
proof -
  let ?ref = "path_join (voice_dir_of n) ''reference.wav''"
  let ?tst = "path_join (voice_dir_of n) ''test_sample.wav''"
  note defs = create_body_def Let_def voice_dir_of_def
  obtain r1 st1 where pa: "preprocess_audio env st a 22050 = (r1, st1)" by force
  from preprocess_audio_cases [OF pa] obtain pp where r1: "r1 = Inr pp" by auto
  obtain r2 st2 where mk: "mkdir_exist_ok env (voice_dir_of n) st1 = (r2, st2)" by force
  from assms pa r1 mk have r2: "r2 = Inr ()"
    by (cases r2) (simp_all add: defs)
  from assms pa r1 mk r2 obtain c where rd: "read_file env (fs st2) pp = Inr c"
    by (cases "read_file env (fs st2) pp") (simp_all add: defs)
  from assms pa r1 mk r2 rd obtain w0 rate where tl: "torchaudio_load env c = Inr (w0, rate)"
    by (cases "torchaudio_load env c") (auto simp: defs)
  let ?w1 = "if Suc 0 < length w0 then mean_channels w0 else w0"
  from assms pa r1 mk r2 rd tl obtain w where
    rs: "(if rate \<noteq> 22050 then torchaudio_resample env ?w1 rate 22050 else Inr ?w1) = Inr w"
    by (cases "rate = 22050"; cases "torchaudio_resample env ?w1 rate 22050")
       (simp_all add: defs)
  obtain r3 st3 where wr: "write_file env ?ref (Audio w 22050) st2 = (r3, st3)" by force
  from assms pa r1 mk r2 rd tl rs wr have r3: "r3 = Inr ()"
    by (cases r3) (simp_all add: defs)
  obtain r4 st4 where tts: "tts_to_file env test_text ?ref ''en'' ?tst None st3 = (r4, st4)"
    by force
  from assms pa r1 mk r2 rd tl rs wr r3 tts have r4: "r4 = Inr ()"
    by (cases r4) (simp_all add: defs)
  from reference_then_tts [OF wr [unfolded r3] tts [unfolded r4]] obtain g r where
    gen: "tts_generate env test_text (Audio w 22050) ''en'' None = Inr (g, r)" and
    st4: "st4 = st2\<lparr>fs := (fs st2)(?ref \<mapsto> File (Audio w 22050), ?tst \<mapsto> File (Audio [g] r)),
                     tts_log := tts_log st2 @ [(test_text, ?ref, ''en'', ?tst)]\<rparr>"
    by blast
  let ?st5 = "st4\<lparr>voices := AList.update n (new_profile env (uuid_ctr st4) n w) (voices st4),
                   uuid_ctr := Suc (uuid_ctr st4)\<rparr>"
  let ?st6 = "save_voices_metadata env ?st5"
  define fin where
    "fin = (if pp \<noteq> a \<and> fs ?st6 pp \<noteq> None then os_remove env pp ?st6 else (Inr (), ?st6))"
  have cb: "create_body env st a n =
              (case fin of (Inl e, st7) \<Rightarrow> (Inl e, st7) | (Inr u, st7) \<Rightarrow> (Inr True, st7))"
    unfolding fin_def using pa r1 mk r2 rd tl rs wr r3 tts r4
    by (cases "rate = 22050") (simp_all add: defs new_profile_def)
  obtain r7 st7 where fin: "fin = (r7, st7)" by force
  from assms cb fin have res: "r7 = Inr () \<and> b \<and> st' = st7"
    by (cases r7) simp_all
  from fin res have "st' = ?st6 \<or> st' = ?st6\<lparr>fs := (fs ?st6)(pp := None)\<rparr>"
    unfolding fin_def by (auto split: if_splits dest!: os_remove_cases)
  moreover have "?st5 = st2\<lparr>fs := (fs st2)(?ref \<mapsto> File (Audio w 22050), ?tst \<mapsto> File (Audio [g] r)),
                     tts_log := tts_log st2 @ [(test_text, ?ref, ''en'', ?tst)],
                     voices := AList.update n (new_profile env (uuid_ctr st2) n w) (voices st2),
                     uuid_ctr := Suc (uuid_ctr st2)\<rparr>"
    by (simp add: st4)
  ultimately show ?thesis using res pa r1 mk r2 gen by auto
qed

lemma create_embedding_cases:
  "create_voice_embedding env st a n = (r, st') \<Longrightarrow>
     (r = Inr True \<and> create_body env st a n = (Inr True, st')) \<or> r = Inr False"
  unfolding create_voice_embedding_def
  by (cases "create_body env st a n") (auto split: sum.splits dest: create_body_success)

lemma create_success_registry:
  assumes "create_voice_embedding env st a n = (Inr True, st')"
  shows "\<exists>w. voices st' = AList.update n (new_profile env (uuid_ctr st) n w) (voices st)
            \<and> uuid_ctr st' = Suc (uuid_ctr st)"
proof -
  from create_embedding_cases [OF assms] have "create_body env st a n = (Inr True, st')" by simp
  from create_body_success [OF this] obtain pp st1 st2 w g r st6 where
    pa: "preprocess_audio env st a 22050 = (Inr pp, st1)" and
    mk: "mkdir_exist_ok env (voice_dir_of n) st1 = (Inr (), st2)" and
    st6: "st6 = save_voices_metadata env
                (st2\<lparr>fs := (fs st2)(path_join (voice_dir_of n) ''reference.wav'' \<mapsto> File (Audio w 22050),
                                     path_join (voice_dir_of n) ''test_sample.wav'' \<mapsto> File (Audio [g] r)),
                     tts_log := tts_log st2 @ [(test_text, path_join (voice_dir_of n) ''reference.wav'', ''en'',
                                              path_join (voice_dir_of n) ''test_sample.wav'')],
                     voices := AList.update n (new_profile env (uuid_ctr st2) n w) (voices st2),
                     uuid_ctr := Suc (uuid_ctr st2)\<rparr>)" and
    fin: "st' = st6 \<or> st' = st6\<lparr>fs := (fs st6)(pp := None)\<rparr>"
    by blast
  from preprocess_audio_cases [OF pa] have s1: "voices st1 = voices st" "uuid_ctr st1 = uuid_ctr st"
    by auto
  from mkdir_cases [OF mk] have s2: "voices st2 = voices st1" "uuid_ctr st2 = uuid_ctr st1"
    by auto
  let ?st5 = "st2\<lparr>fs := (fs st2)(path_join (voice_dir_of n) ''reference.wav'' \<mapsto> File (Audio w 22050),
                                     path_join (voice_dir_of n) ''test_sample.wav'' \<mapsto> File (Audio [g] r)),
                     tts_log := tts_log st2 @ [(test_text, path_join (voice_dir_of n) ''reference.wav'', ''en'',
                                              path_join (voice_dir_of n) ''test_sample.wav'')],
                     voices := AList.update n (new_profile env (uuid_ctr st2) n w) (voices st2),
                     uuid_ctr := Suc (uuid_ctr st2)\<rparr>"
  from save_cases [of env ?st5] st6
  have "voices st6 = AList.update n (new_profile env (uuid_ctr st2) n w) (voices st2)
        \<and> uuid_ctr st6 = Suc (uuid_ctr st2)"
    by auto
  with fin s1 s2 show ?thesis by auto
qed

lemma count_list_distinct: "distinct xs \<Longrightarrow> x \<in> set xs \<Longrightarrow> count_list xs x = 1"
  by (induction xs) auto

lemma count_list_absent: "x \<notin> set xs \<Longrightarrow> count_list xs x = 0"
  by (induction xs) auto

lemma keys_after_update:
  "distinct (map fst m) \<Longrightarrow> count_list (map fst (AList.update n v m)) n = 1"
  by (simp add: update_keys count_list_distinct count_list_absent)

subsection \<open>Deletion\<close>

lemma delete_unknown:
  "\<not> has_speaker st n \<Longrightarrow> delete_speaker env st n = (Inr False, st)"
  by (simp add: delete_speaker_def has_speaker_def)

lemma delete_body_cases:
  "delete_body env st n = (r, st') \<Longrightarrow>
     ((\<exists>e. r = Inl e) \<and> st' = st \<and> fs st (voice_dir_of n) \<noteq> None
        \<and> (\<exists>e. rmtree env (voice_dir_of n) st = (Inl e, st)))
   \<or> (\<exists>st1. r = Inr True
        \<and> st' = save_voices_metadata env (st1\<lparr>voices := AList.delete n (voices st)\<rparr>)
        \<and> ((fs st (voice_dir_of n) = None \<and> st1 = st)
            \<or> (fs st (voice_dir_of n) \<noteq> None \<and> rmtree env (voice_dir_of n) st = (Inr (), st1)
                \<and> st1 = st\<lparr>fs := (\<lambda>p. if path_under (voice_dir_of n) p then None else fs st p)\<rparr>)))"
  unfolding delete_body_def Let_def voice_dir_of_def [symmetric]
  by (cases "rmtree env (voice_dir_of n) st")
     (auto split: if_splits sum.splits prod.splits dest!: rmtree_cases)

lemma delete_known:
  assumes has: "has_speaker st n"
  shows "\<exists>b st'. delete_speaker env st n = (Inr b, st') \<and>
         (b \<longleftrightarrow> fs st (voice_dir_of n) = None \<or> fst (rmtree env (voice_dir_of n) st) = Inr ()) \<and>
         (b \<longrightarrow> voices st' = AList.delete n (voices st) \<and> \<not> has_speaker st' n \<and>
                (\<forall>p. path_under (voice_dir_of n) p \<and> p \<noteq> voice_metadata_file \<longrightarrow>
                       fs st' p = None \<or> (fs st (voice_dir_of n) = None \<and> fs st' p = fs st p)) \<and>
                (fs st' voice_metadata_file = Some (File (Json (voices st'))) \<or>
                 os_refuses env (Write voice_metadata_file) (fs st') \<noteq> None)) \<and>
         (\<not> b \<longrightarrow> voices st' = voices st \<and> has_speaker st' n)"
proof -
  obtain r s where body: "delete_body env st n = (r, s)" by force
  from has body have ds: "delete_speaker env st n =
      (case r of Inr b \<Rightarrow> (Inr b, s) | Inl e \<Rightarrow> (Inr False, s))"
    by (simp add: delete_speaker_def has_speaker_def split: sum.splits)
  from delete_body_cases [OF body] consider
      (refused) e e' where "r = Inl e" "s = st" "fs st (voice_dir_of n) \<noteq> None"
        "rmtree env (voice_dir_of n) st = (Inl e', st)"
    | (removed) st1 where "r = Inr True"
        "s = save_voices_metadata env (st1\<lparr>voices := AList.delete n (voices st)\<rparr>)"
        "(fs st (voice_dir_of n) = None \<and> st1 = st)
            \<or> (fs st (voice_dir_of n) \<noteq> None \<and> rmtree env (voice_dir_of n) st = (Inr (), st1)
                \<and> st1 = st\<lparr>fs := (\<lambda>p. if path_under (voice_dir_of n) p then None else fs st p)\<rparr>)"
    by blast
  then show ?thesis
  proof cases
    case refused
    with ds has show ?thesis by auto
  next
    case (removed st1)
    note s = removed(2) and alt = removed(3)
    have v: "voices s = AList.delete n (voices st)" by (simp add: s voices_after_save)
    have nh: "\<not> has_speaker s n" by (simp add: has_speaker_def v delete_notin_dom)
    have files: "\<forall>p. path_under (voice_dir_of n) p \<and> p \<noteq> voice_metadata_file \<longrightarrow>
                       fs s p = None \<or> (fs st (voice_dir_of n) = None \<and> fs s p = fs st p)"
      using alt by (auto simp: s fs_after_save)
    from alt have "fs st (voice_dir_of n) = None \<or> fst (rmtree env (voice_dir_of n) st) = Inr ()"
      by auto
    moreover have "fs s voice_metadata_file = Some (File (Json (voices s))) \<or>
                 os_refuses env (Write voice_metadata_file) (fs s) \<noteq> None"
      unfolding s by (rule index_after_save)
    ultimately show ?thesis using ds removed(1) v nh files by auto
  qed
qed

subsection \<open>Synthesis\<close>

lemma adjust_speed_body_cases:
  "adjust_speed_body env st p speed = (r, st') \<Longrightarrow>
     ((\<exists>e. r = Inl e) \<and> st' = st)
   \<or> (\<exists>c audio sr fast. r = Inr () \<and> read_file env (fs st) p = Inr c
         \<and> librosa_load env c (Some 22050) = Inr (audio, sr)
         \<and> librosa_time_stretch env audio speed = Inr fast
         \<and> st' = st\<lparr>fs := (fs st)(p \<mapsto> File (Audio [fast] sr))\<rparr>)"
  by (auto simp: adjust_speed_body_def write_file_def split: sum.splits prod.splits option.splits)

lemma adjust_speed_cases:
  "adjust_speed env st p speed = (r, st') \<Longrightarrow>
     r = Inr () \<and>
     (((\<exists>e. adjust_speed_body env st p speed = (Inl e, st)) \<and> st' = st)
      \<or> (\<exists>c audio sr fast. read_file env (fs st) p = Inr c
         \<and> librosa_load env c (Some 22050) = Inr (audio, sr)
         \<and> librosa_time_stretch env audio speed = Inr fast
         \<and> st' = st\<lparr>fs := (fs st)(p \<mapsto> File (Audio [fast] sr))\<rparr>))"
  unfolding adjust_speed_def
  by (cases "adjust_speed_body env st p speed")
     (auto split: sum.splits dest!: adjust_speed_body_cases)

lemma synthesize_unknown:
  "\<not> has_speaker st n \<Longrightarrow>
     synthesize env st t n l speed =
       (Inl (ValueError (''Speaker '' @ [CHR 0x27] @ n @ [CHR 0x27] @ '' not found'')), st)"
  by (simp add: synthesize_def has_speaker_def)

lemma synthesize_known:
  assumes "map_of (voices st) n = Some entry"
  shows "synthesize env st t n l speed =
     (case mkdir_exist_ok env (path_parent (synth_output_path env st n))
             (st\<lparr>uuid_ctr := Suc (uuid_ctr st)\<rparr>) of
        (Inl e, st2) \<Rightarrow> (Inl e, st2)
      | (Inr u, st2) \<Rightarrow>
     (case tts_to_file env t (reference_path entry) l (synth_output_path env st n) (Some True) st2 of
        (Inl e, st3) \<Rightarrow> (Inl e, st3)
      | (Inr u, st3) \<Rightarrow>
     (case (if speed \<noteq> 1 then adjust_speed env st3 (synth_output_path env st n) speed
            else (Inr (), st3)) of
        (Inl e, st4) \<Rightarrow> (Inl e, st4)
      | (Inr u, st4) \<Rightarrow> (Inr (synth_output_path env st n), st4))))"
proof -
  from assms have "n \<in> set (map fst (voices st))"
    by (metis map_of_eq_None_iff option.distinct(1) set_map)
  with assms show ?thesis
    unfolding synthesize_def Let_def synth_output_path_def by simp
qed

subsection \<open>Paths\<close>











lemma voice_file_path:
  "path_join (voice_dir_of n) (CHR ''r'' # x) = voice_dir_of n @ CHR ''/'' # CHR ''r'' # x"
  "path_join (voice_dir_of n) (CHR ''t'' # x) = voice_dir_of n @ CHR ''/'' # CHR ''t'' # x"
  by (simp_all add: path_join_def)

lemma hd_voice_dir: "hd (voice_dir_of n @ x) \<noteq> CHR ''u''"
  by (cases n) (auto simp: voice_dir_of_def path_join_def voices_dir_def)

lemma voice_file_not_upload:
  "path_join (voice_dir_of n) ''reference.wav'' \<noteq> CHR ''u'' # x"
  "path_join (voice_dir_of n) ''test_sample.wav'' \<noteq> CHR ''u'' # x"
  using hd_voice_dir [of n "''/reference.wav''"] hd_voice_dir [of n "''/test_sample.wav''"]
  by (auto simp: voice_file_path)

lemma voice_file_not_index:
  "path_join (voice_dir_of n) ''reference.wav'' \<noteq> voice_metadata_file"
  "path_join (voice_dir_of n) ''test_sample.wav'' \<noteq> voice_metadata_file"
proof -
  have l: "last voice_metadata_file = CHR ''n''"
    by (simp add: voice_metadata_file_def path_join_def voices_dir_def)
  show "path_join (voice_dir_of n) ''reference.wav'' \<noteq> voice_metadata_file"
  proof
    assume "path_join (voice_dir_of n) ''reference.wav'' = voice_metadata_file"
    from arg_cong [OF this, of last] l show False by (simp add: voice_file_path)
  qed
  show "path_join (voice_dir_of n) ''test_sample.wav'' \<noteq> voice_metadata_file"
  proof
    assume "path_join (voice_dir_of n) ''test_sample.wav'' = voice_metadata_file"
    from arg_cong [OF this, of last] l show False by (simp add: voice_file_path)
  qed
qed

lemma voice_files_differ:
  "path_join (voice_dir_of n) ''reference.wav'' \<noteq> path_join (voice_dir_of n) ''test_sample.wav''"
  by (simp add: voice_file_path)

lemma py_replace_dot_upload: "\<exists>x. py_replace_dot (CHR ''u'' # s) = CHR ''u'' # x"
  by (simp add: py_replace_dot_def)

lemma upload_path_hd: "\<exists>x. upload_path env st audio_file n = CHR ''u'' # x"
  by (simp add: upload_path_def)

subsection \<open>The clone-voice handler\<close>

lemma clone_voice_conflict:
  assumes "has_speaker st n" and "\<not> overwrite"
    and "content_type audio_file = Some ct" and "prefix ''audio/'' ct"
  shows "clone_voice env (Some st) audio_file n overwrite =
           (Inl (HTTPException 409
                  [Lit ''Speaker '', Lit [CHR 0x27], Str n, Lit [CHR 0x27],
                   Lit '' already exists. Use overwrite=true to replace.'']),
            Some st)"
proof -
  from assms(4) have "ct \<noteq> []" by auto
  with assms show ?thesis by (simp add: clone_voice_def)
qed

lemma clone_voice_accepted:
  assumes "clone_voice env (Some st) audio_file n overwrite = (Inr resp, vc')"
  shows "\<exists>st1 st2 st3.
           st1 = st\<lparr>uuid_ctr := Suc (uuid_ctr st),
                     fs := (fs st)(upload_path env st audio_file n \<mapsto> File (content audio_file))\<rparr> \<and>
           create_voice_embedding env st1 (upload_path env st audio_file n) n = (Inr True, st2) \<and>
           (st3 = st2 \<or> st3 = st2\<lparr>fs := (fs st2)(upload_path env st audio_file n := None)\<rparr>) \<and>
           vc' = Some st3"
proof -
  let ?fp = "upload_path env st audio_file n"
  let ?s0 = "st\<lparr>uuid_ctr := Suc (uuid_ctr st)\<rparr>"
  obtain r s2 where ct: "clone_try env ?s0 ?fp audio_file n = (r, s2)" by force
  define fin where "fin = (if fs s2 ?fp \<noteq> None
                         then (case os_remove env ?fp s2 of
                                 (Inr u, st') \<Rightarrow> st'
                               | (Inl e, st') \<Rightarrow> st')
                         else s2)"
  from assms have cv: "clone_voice env (Some st) audio_file n overwrite = (r, Some fin)"
    unfolding clone_voice_def Let_def upload_path_def [symmetric] fin_def
    by (simp add: ct split: if_splits)
  with assms have r: "r = Inr resp" and v: "vc' = Some fin" by simp_all
  obtain rw sw where wr: "write_file env ?fp (content audio_file) ?s0 = (rw, sw)" by force
  from ct r wr have rw: "rw = Inr ()"
    by (cases rw) (simp_all add: clone_try_def)
  from write_file_cases [OF wr] rw have sw: "sw = ?s0\<lparr>fs := (fs ?s0)(?fp \<mapsto> File (content audio_file))\<rparr>"
    by auto
  obtain rc sc where cr: "create_voice_embedding env sw ?fp n = (rc, sc)" by force
  from ct r wr rw cr have "rc = Inr True \<and> sc = s2"
    by (cases rc) (auto simp: clone_try_def split: if_splits)
  with cr have cr': "create_voice_embedding env sw ?fp n = (Inr True, s2)" by simp
  have "fin = s2 \<or> fin = s2\<lparr>fs := (fs s2)(?fp := None)\<rparr>"
    unfolding fin_def
    by (cases "os_remove env ?fp s2") (auto split: sum.splits dest!: os_remove_cases)
  with cr' v sw show ?thesis by (auto simp: fun_upd_def)
qed

lemma clone_voice_success:
  assumes ok: "clone_voice env (Some st) audio_file n overwrite = (Inr resp, vc')"
  shows "\<exists>st' w g r.
           vc' = Some st' \<and>
           map_of (voices st') n = Some (new_profile env (Suc (uuid_ctr st)) n w) \<and>
           list_speakers st' = (if has_speaker st n then list_speakers st else list_speakers st @ [n]) \<and>
           fs st' (path_join (voice_dir_of n) ''reference.wav'') = Some (File (Audio w 22050)) \<and>
           tts_generate env test_text (Audio w 22050) ''en'' None = Inr (g, r) \<and>
           fs st' (path_join (voice_dir_of n) ''test_sample.wav'') = Some (File (Audio [g] r))"
proof -
  let ?fp = "upload_path env st audio_file n"
  let ?ref = "path_join (voice_dir_of n) ''reference.wav''"
  let ?tst = "path_join (voice_dir_of n) ''test_sample.wav''"
  from clone_voice_accepted [OF ok] obtain st1 st2 st3 where
    st1: "st1 = st\<lparr>uuid_ctr := Suc (uuid_ctr st),
                     fs := (fs st)(?fp \<mapsto> File (content audio_file))\<rparr>" and
    cr: "create_voice_embedding env st1 ?fp n = (Inr True, st2)" and
    st3: "st3 = st2 \<or> st3 = st2\<lparr>fs := (fs st2)(?fp := None)\<rparr>" and
    vc: "vc' = Some st3"
    by blast
  from create_embedding_cases [OF cr] have "create_body env st1 ?fp n = (Inr True, st2)" by simp
  from create_body_success [OF this] obtain pp sa sb w g r st6 where
    pa: "preprocess_audio env st1 ?fp 22050 = (Inr pp, sa)" and
    mk: "mkdir_exist_ok env (voice_dir_of n) sa = (Inr (), sb)" and
    gen: "tts_generate env test_text (Audio w 22050) ''en'' None = Inr (g, r)" and
    st6: "st6 = save_voices_metadata env
                (sb\<lparr>fs := (fs sb)(?ref \<mapsto> File (Audio w 22050), ?tst \<mapsto> File (Audio [g] r)),
                     tts_log := tts_log sb @ [(test_text, ?ref, ''en'', ?tst)],
                     voices := AList.update n (new_profile env (uuid_ctr sb) n w) (voices sb),
                     uuid_ctr := Suc (uuid_ctr sb)\<rparr>)" and
    st2: "st2 = st6 \<or> st2 = st6\<lparr>fs := (fs st6)(pp := None)\<rparr>"
    by blast
  from preprocess_audio_cases [OF pa] have
    sa: "voices sa = voices st1" "uuid_ctr sa = uuid_ctr st1" and
    pp: "pp = ?fp \<or> pp = py_replace_dot ?fp"
    by auto
  from mkdir_cases [OF mk] have sb: "voices sb = voices sa" "uuid_ctr sb = uuid_ctr sa" by auto
  obtain x where fp: "?fp = CHR ''u'' # x" using upload_path_hd by blast
  from pp fp py_replace_dot_upload [of x] obtain y where ppu: "pp = CHR ''u'' # y" by auto
  have ne: "?ref \<noteq> pp" "?tst \<noteq> pp" "?ref \<noteq> ?fp" "?tst \<noteq> ?fp"
    unfolding ppu fp by (simp_all only: voice_file_not_upload not_False_eq_True)
  have f6: "fs st6 ?ref = Some (File (Audio w 22050))" "fs st6 ?tst = Some (File (Audio [g] r))"
    unfolding st6 using voice_file_not_index [of n] voice_files_differ [of n]
    by (simp_all add: fs_after_save)
  have v6: "voices st6 = AList.update n (new_profile env (Suc (uuid_ctr st)) n w) (voices st)"
    unfolding st6 by (simp add: voices_after_save sa sb st1)
  from st2 st3 f6 ne have f3: "fs st3 ?ref = Some (File (Audio w 22050))"
      "fs st3 ?tst = Some (File (Audio [g] r))"
    by auto
  from st2 st3 v6 have v3: "voices st3 = AList.update n (new_profile env (Suc (uuid_ctr st)) n w) (voices st)"
    by auto
  have m: "map_of (voices st3) n = Some (new_profile env (Suc (uuid_ctr st)) n w)"
    by (simp add: v3 update_conv')
  have l: "list_speakers st3 = (if has_speaker st n then list_speakers st else list_speakers st @ [n])"
    by (simp add: list_speakers_def has_speaker_def v3 update_keys)
  from vc m l f3 gen show ?thesis by blast
qed

subsection \<open>Preservation of the registry invariant\<close>

lemma good_index_file_iff:
  "good_index_file env k f \<longleftrightarrow>
     (\<forall>m. f voice_metadata_file = Some (File (Json m)) \<longrightarrow> good_registry env k m)"
  by (auto simp: good_index_file_def split: option.splits node.splits content.splits)

lemmas inv_defs = registry_inv_def good_index_file_iff

lemma issued_ids_mono: "k \<le> k' \<Longrightarrow> set (issued_ids env k) \<subseteq> set (issued_ids env k')"
  by (auto simp: issued_ids_def)

lemma good_profile_mono: "k \<le> k' \<Longrightarrow> good_profile env k p \<Longrightarrow> good_profile env k' p"
  using issued_ids_mono [of k k' env] by (auto simp: good_profile_def)

lemma good_registry_mono: "k \<le> k' \<Longrightarrow> good_registry env k m \<Longrightarrow> good_registry env k' m"
  by (auto simp: good_registry_def list_all_iff intro: good_profile_mono)

lemma good_new_profile: "good_profile env (Suc k) (new_profile env k n w)"
  by (simp add: good_profile_def new_profile_def issued_ids_def)

lemma set_update_subset: "set (AList.update k v m) \<subseteq> insert (k, v) (set m)"
  by (induction m) auto

lemma good_registry_update:
  assumes "good_registry env k m"
  shows "good_registry env (Suc k) (AList.update n (new_profile env k n w) m)"
proof -
  from assms have "good_registry env (Suc k) m" by (rule good_registry_mono [rotated]) simp
  then show ?thesis
    using set_update_subset [of n "new_profile env k n w" m] good_new_profile [of env k n w]
    by (auto simp: good_registry_def list_all_iff distinct_update)
qed

lemma good_registry_delete: "good_registry env k m \<Longrightarrow> good_registry env k (AList.delete n m)"
  by (auto simp: good_registry_def list_all_iff AList.delete_eq distinct_map_filter)

lemma inv_write_audio:
  "registry_inv env st \<Longrightarrow> write_file env p (Audio w r) st = (res, st') \<Longrightarrow> registry_inv env st'"
  by (auto simp: inv_defs dest!: write_file_cases split: if_splits)

lemma inv_mkdir:
  "registry_inv env st \<Longrightarrow> mkdir_exist_ok env d st = (res, st') \<Longrightarrow> registry_inv env st'"
  by (auto simp: inv_defs dest!: mkdir_cases split: if_splits)

lemma inv_os_remove:
  "registry_inv env st \<Longrightarrow> os_remove env p st = (res, st') \<Longrightarrow> registry_inv env st'"
  by (auto simp: inv_defs dest!: os_remove_cases split: if_splits)

lemma inv_rmtree:
  "registry_inv env st \<Longrightarrow> rmtree env d st = (res, st') \<Longrightarrow> registry_inv env st'"
  by (auto simp: inv_defs dest!: rmtree_cases split: if_splits)

lemma inv_tts:
  "registry_inv env st \<Longrightarrow> tts_to_file env t w l p s st = (res, st') \<Longrightarrow> registry_inv env st'"
  by (auto simp: inv_defs dest!: tts_to_file_cases split: if_splits)

lemma inv_preprocess:
  "registry_inv env st \<Longrightarrow> preprocess_audio env st a sr = (res, st') \<Longrightarrow> registry_inv env st'"
  by (auto simp: inv_defs dest!: preprocess_audio_cases split: if_splits)

lemma inv_save: "registry_inv env st \<Longrightarrow> registry_inv env (save_voices_metadata env st)"
  using save_cases [of env st] by (auto simp: inv_defs)

lemma inv_register:
  "registry_inv env st \<Longrightarrow>
   registry_inv env (st\<lparr>voices := AList.update n (new_profile env (uuid_ctr st) n w) (voices st),
                        uuid_ctr := Suc (uuid_ctr st)\<rparr>)"
  by (auto simp: inv_defs good_registry_update
      intro: good_registry_mono [rotated])

lemma inv_unregister:
  "registry_inv env st \<Longrightarrow> registry_inv env (st\<lparr>voices := AList.delete n (voices st)\<rparr>)"
  by (auto simp: inv_defs good_registry_delete)

lemma inv_next_uuid:
  "registry_inv env st \<Longrightarrow> registry_inv env (st\<lparr>uuid_ctr := Suc (uuid_ctr st)\<rparr>)"
  by (auto simp: inv_defs
      intro: good_registry_mono [rotated])

lemma inv_snd_write_audio:
  "registry_inv env st \<Longrightarrow> registry_inv env (snd (write_file env p (Audio w r) st))"
  using inv_write_audio [of env st p w r] by (cases "write_file env p (Audio w r) st") auto

lemma inv_snd_mkdir:
  "registry_inv env st \<Longrightarrow> registry_inv env (snd (mkdir_exist_ok env d st))"
  using inv_mkdir [of env st d] by (cases "mkdir_exist_ok env d st") auto

lemma inv_snd_os_remove:
  "registry_inv env st \<Longrightarrow> registry_inv env (snd (os_remove env p st))"
  using inv_os_remove [of env st p] by (cases "os_remove env p st") auto

lemma inv_snd_rmtree:
  "registry_inv env st \<Longrightarrow> registry_inv env (snd (rmtree env d st))"
  using inv_rmtree [of env st d] by (cases "rmtree env d st") auto

lemma inv_snd_tts:
  "registry_inv env st \<Longrightarrow> registry_inv env (snd (tts_to_file env t w l p s st))"
  using inv_tts [of env st t w l p s] by (cases "tts_to_file env t w l p s st") auto

lemma inv_snd_preprocess:
  "registry_inv env st \<Longrightarrow> registry_inv env (snd (preprocess_audio env st a sr))"
  using inv_preprocess [of env st a sr] by (cases "preprocess_audio env st a sr") auto

text \<open>
  A step that may raise, followed by the rest of the body: the invariant holds at the end
  when it holds after the step and the rest keeps it.
\<close>

lemma inv_seq:
  assumes "P (snd x)" and "\<And>u s. x = (Inr u, s) \<Longrightarrow> P s \<Longrightarrow> P (snd (f u s))"
  shows "P (snd (case x of (Inl e, s) \<Rightarrow> (Inl e, s) | (Inr u, s) \<Rightarrow> f u s))"
  using assms by (cases x) (auto split: sum.splits)

lemma inv_pure:
  assumes "P st" and "\<And>v. x = Inr v \<Longrightarrow> P (snd (f v))"
  shows "P (snd (case x of Inl e \<Rightarrow> (Inl e, st) | Inr v \<Rightarrow> f v))"
  using assms by (auto split: sum.splits)

lemma inv_create_body:
  "registry_inv env st \<Longrightarrow> registry_inv env (snd (create_body env st a n))"
  unfolding create_body_def Let_def new_profile_def [symmetric] voice_dir_of_def [symmetric]
  apply (rule inv_seq)
   apply (simp add: inv_snd_preprocess)
  apply (rule inv_seq)
   apply (simp add: inv_snd_mkdir)
  apply (rule inv_pure, assumption)
  apply (rule inv_pure, assumption)
  apply (simp only: split_paired_all prod.case)
  apply (rule inv_pure, assumption)
  apply (rule inv_seq)
   apply (simp add: inv_snd_write_audio)
  apply (rule inv_seq)
   apply (simp add: inv_snd_tts)
  apply (rule inv_seq)
   apply (simp add: inv_save inv_register inv_snd_os_remove)
  apply simp
  done

lemma inv_create:
  "registry_inv env st \<Longrightarrow> registry_inv env (snd (create_voice_embedding env st a n))"
  using inv_create_body [of env st a n]
  unfolding create_voice_embedding_def
  by (cases "create_body env st a n") (auto split: sum.splits)

lemma inv_delete_body:
  "registry_inv env st \<Longrightarrow> registry_inv env (snd (delete_body env st n))"
  unfolding delete_body_def Let_def
  apply (rule inv_seq)
   apply (simp add: inv_snd_rmtree)
  apply (simp add: inv_save inv_unregister)
  done

lemma inv_delete:
  "registry_inv env st \<Longrightarrow> registry_inv env (snd (delete_speaker env st n))"
  using inv_delete_body [of env st n]
  unfolding delete_speaker_def
  by (cases "delete_body env st n") (auto split: sum.splits)

lemma inv_adjust_speed:
  "registry_inv env st \<Longrightarrow> registry_inv env (snd (adjust_speed env st p speed))"
proof -
  assume i: "registry_inv env st"
  obtain r s where a: "adjust_speed env st p speed = (r, s)" by force
  from adjust_speed_cases [OF a] i have "registry_inv env s"
    by (auto simp: inv_defs split: if_splits)
  with a show ?thesis by simp
qed

lemma inv_synthesize:
  "registry_inv env st \<Longrightarrow> registry_inv env (snd (synthesize env st t n l speed))"
proof (cases "map_of (voices st) n")
  case None
  assume "registry_inv env st"
  moreover from None have "n \<notin> set (map fst (voices st))"
    by (simp add: map_of_eq_None_iff)
  ultimately show ?thesis by (simp add: synthesize_def)
next
  case (Some entry)
  assume i: "registry_inv env st"
  show ?thesis
    unfolding synthesize_known [OF Some]
    apply (rule inv_seq)
     apply (simp add: i inv_next_uuid inv_snd_mkdir)
    apply (rule inv_seq)
     apply (simp add: inv_snd_tts)
    apply (rule inv_seq)
     apply (simp add: inv_adjust_speed)
    apply simp
    done
qed

lemma inv_init:
  assumes "registry_inv env st \<or> fs st voice_metadata_file = None"
    and "init_cloner env st = (Inr (), st')"
  shows "registry_inv env st'"
proof -
  obtain r1 st1 where mk: "mkdir_exist_ok env voices_dir st = (r1, st1)" by force
  from assms(2) mk have st': "st' = st1\<lparr>voices := load_voices_metadata env st1\<rparr>"
    by (cases r1) (simp_all add: init_cloner_def)
  have nd: "voices_dir \<noteq> voice_metadata_file"
    by (simp add: voices_dir_def voice_metadata_file_def path_join_def)
  from mkdir_cases [OF mk] nd have f1: "fs st1 voice_metadata_file = fs st voice_metadata_file"
    and u1: "uuid_ctr st1 = uuid_ctr st"
    by auto
  have idx: "good_index_file env (uuid_ctr st1) (fs st1)"
    using assms(1) by (auto simp: inv_defs f1 u1)
  have "good_registry env (uuid_ctr st1) (load_voices_metadata env st1)"
    using idx
    by (auto simp: load_voices_metadata_def read_file_def good_index_file_iff good_registry_def
        split: sum.splits content.splits option.splits node.splits)
  with idx show ?thesis by (simp add: st' registry_inv_def)
qed

lemma inv_outside:
  "registry_inv env st \<Longrightarrow> p \<noteq> voice_metadata_file \<Longrightarrow> uuid_ctr st \<le> k
     \<Longrightarrow> registry_inv env (st\<lparr>fs := (fs st)(p := x), uuid_ctr := k\<rparr>)"
  by (auto simp: inv_defs intro: good_registry_mono)

lemma reachable_inv: "reachable env st \<Longrightarrow> registry_inv env st"
proof (induction rule: reachable.induct)
  case (fresh st0 st)
  then show ?case using inv_init [of env st0 st] by simp
next
  case (create st st' audio_path speaker_name)
  then show ?case by (simp add: inv_create)
next
  case (synth st st' t speaker_name language speed)
  then show ?case by (simp add: inv_synthesize)
next
  case (delete st st' speaker_name)
  then show ?case by (simp add: inv_delete)
next
  case (restart st st')
  then show ?case using inv_init [of env st st'] by simp
next
  case (outside st p k x)
  then show ?case by (simp add: inv_outside)
qed

subsection \<open>Evaluation on the concrete states\<close>

lemmas demo_defs =
  demo_env_def demo_state_def alice_state_def alice_profile_def overwrite_refusing_env_def text_upload_def
  wav_upload_def read_file_def write_file_def mkdir_exist_ok_def
  os_remove_def rmtree_def path_join_def path_parent_def voices_dir_def voice_metadata_file_def
  str_uuid_def py_replace_dot_def tts_to_file_def test_text_def save_voices_metadata_def
  preprocess_audio_def preprocess_body_def create_voice_embedding_def create_body_def
  clamp_duration_def py_slice_to_def np_tile_def frames_def
  has_speaker_def list_speakers_def adjust_speed_def adjust_speed_body_def synthesize_def
  delete_speaker_def delete_body_def voice_dir_of_def synth_output_path_def upload_path_def
  clone_voice_def clone_try_def synthesize_speech_def Let_def

section \<open>The claims\<close>

subsection \<open>C1: a created speaker is known and listed once\<close>

text \<open>
  Claim C1. A name that is not a key of the registry is not reported by
  \<^verbatim>\<open>has_speaker\<close>; after \<^verbatim>\<open>create_voice_embedding\<close> has returned \<^verbatim>\<open>True\<close> for a name,
  \<^verbatim>\<open>has_speaker\<close> reports it and \<^verbatim>\<open>list_speakers\<close> contains it exactly once. The keys of a
  Python dictionary are distinct, which is the hypothesis on the association list.
\<close>

theorem create_then_has_and_listed_once:
  assumes "distinct (list_speakers st)"
  shows "(map_of (voices st) speaker_name = None \<longrightarrow> \<not> has_speaker st speaker_name) \<and>
         (create_voice_embedding env st audio_path speaker_name = (Inr True, st') \<longrightarrow>
            has_speaker st' speaker_name \<and> count_list (list_speakers st') speaker_name = 1
            \<and> distinct (list_speakers st'))"
proof (intro conjI impI)
  assume "map_of (voices st) speaker_name = None"
  then show "\<not> has_speaker st speaker_name"
    by (simp add: has_speaker_def map_of_eq_None_iff)
next
  assume ok: "create_voice_embedding env st audio_path speaker_name = (Inr True, st')"
  from create_success_registry [OF ok] obtain w where
    v: "voices st' = AList.update speaker_name (new_profile env (uuid_ctr st) speaker_name w) (voices st)"
    by blast
  show "has_speaker st' speaker_name"
    by (simp add: has_speaker_def v dom_update)
  show "count_list (list_speakers st') speaker_name = 1"
    using assms by (simp add: list_speakers_def v keys_after_update)
  show "distinct (list_speakers st')"
    using assms by (simp add: list_speakers_def v distinct_update)
qed

text \<open>On a fresh installation: \<open>alice\<close> is unknown, is created from a clip, and is then listed once.\<close>

theorem create_then_has_and_listed_once_witness:
  "distinct (list_speakers demo_state) \<and>
   map_of (voices demo_state) ''alice'' = None \<and> \<not> has_speaker demo_state ''alice'' \<and>
   fst (create_voice_embedding demo_env demo_state ''clip.wav'' ''alice'') = Inr True \<and>
   has_speaker (snd (create_voice_embedding demo_env demo_state ''clip.wav'' ''alice'')) ''alice'' \<and>
   count_list (list_speakers (snd (create_voice_embedding demo_env demo_state ''clip.wav'' ''alice'')))
     ''alice'' = 1"
proof -
  let ?r = "create_voice_embedding demo_env demo_state ''clip.wav'' ''alice''"
  have d: "distinct (list_speakers demo_state)" by (simp add: demo_defs)
  have n: "map_of (voices demo_state) ''alice'' = None" by (simp add: demo_defs)
  have f: "fst ?r = Inr True" by (simp add: demo_defs)
  then have r: "?r = (Inr True, snd ?r)" by (simp add: prod_eq_iff)
  from create_then_has_and_listed_once [OF d, of "''alice''" demo_env "''clip.wav''" "snd ?r"] n r d f
  show ?thesis by blast
qed

subsection \<open>C2: the duration window\<close>




subsection \<open>C3: preprocessing does not raise\<close>

text \<open>
  Claim C3. \<^verbatim>\<open>preprocess_audio\<close> always returns a path, the input path or the processed
  one. Whenever a step of its body raises, it returns the input path and leaves the state as
  it was: in particular when the file cannot be read, when the decoder rejects it (a corrupt
  file), and when an empty signal reaches the clamping stage.
\<close>

theorem preprocess_audio_never_raises:
  "(\<exists>p st'. preprocess_audio env st audio_path target_sr = (Inr p, st')
        \<and> (p = audio_path \<or> p = py_replace_dot audio_path)) \<and>
   (\<forall>e. fst (preprocess_body env st audio_path target_sr) = Inl e \<longrightarrow>
        preprocess_audio env st audio_path target_sr = (Inr audio_path, st)) \<and>
   (\<forall>e. read_file env (fs st) audio_path = Inl e \<longrightarrow>
        preprocess_audio env st audio_path target_sr = (Inr audio_path, st)) \<and>
   (\<forall>c e. read_file env (fs st) audio_path = Inr c \<and> librosa_load env c None = Inl e \<longrightarrow>
        preprocess_audio env st audio_path target_sr = (Inr audio_path, st)) \<and>
   (\<forall>c. read_file env (fs st) audio_path = Inr c \<and> librosa_load env c None = Inr ([], target_sr)
        \<and> librosa_trim env [] = Inr [] \<and> librosa_normalize env [] = Inr [] \<and> 0 < target_sr \<longrightarrow>
        preprocess_audio env st audio_path target_sr = (Inr audio_path, st))"
proof (intro conjI allI impI)
  obtain r s where pa: "preprocess_audio env st audio_path target_sr = (r, s)" by force
  from preprocess_audio_cases [OF pa] pa
  show "\<exists>p st'. preprocess_audio env st audio_path target_sr = (Inr p, st')
        \<and> (p = audio_path \<or> p = py_replace_dot audio_path)" by auto
next
  fix e assume "fst (preprocess_body env st audio_path target_sr) = Inl e"
  then show "preprocess_audio env st audio_path target_sr = (Inr audio_path, st)"
    by (rule preprocess_fail_returns_original)
next
  fix e assume "read_file env (fs st) audio_path = Inl e"
  then have "fst (preprocess_body env st audio_path target_sr) = Inl e"
    by (simp add: preprocess_body_def)
  then show "preprocess_audio env st audio_path target_sr = (Inr audio_path, st)"
    by (rule preprocess_fail_returns_original)
next
  fix c e assume "read_file env (fs st) audio_path = Inr c \<and> librosa_load env c None = Inl e"
  then have "fst (preprocess_body env st audio_path target_sr) = Inl e"
    by (simp add: preprocess_body_def)
  then show "preprocess_audio env st audio_path target_sr = (Inr audio_path, st)"
    by (rule preprocess_fail_returns_original)
next
  fix c assume "read_file env (fs st) audio_path = Inr c \<and> librosa_load env c None = Inr ([], target_sr)
        \<and> librosa_trim env [] = Inr [] \<and> librosa_normalize env [] = Inr [] \<and> 0 < target_sr"
  then have "fst (preprocess_body env st audio_path target_sr) = Inl ZeroDivisionError"
    by (simp add: preprocess_body_def clamp_duration_def)
  then show "preprocess_audio env st audio_path target_sr = (Inr audio_path, st)"
    by (rule preprocess_fail_returns_original)
qed

text \<open>A file that is not audio, and a file that does not exist.\<close>

theorem preprocess_audio_never_raises_witness:
  "read_file demo_env (fs demo_state) ''corrupt.wav'' = Inr (Bytes ''RIFF'') \<and>
   librosa_load demo_env (Bytes ''RIFF'') None = Inl (LibraryError ''NoBackendError'') \<and>
   preprocess_audio demo_env demo_state ''corrupt.wav'' 22050 = (Inr ''corrupt.wav'', demo_state) \<and>
   read_file demo_env (fs demo_state) ''missing.wav'' = Inl (OSError ''FileNotFoundError'') \<and>
   preprocess_audio demo_env demo_state ''missing.wav'' 22050 = (Inr ''missing.wav'', demo_state)"
proof -
  have r: "read_file demo_env (fs demo_state) ''corrupt.wav'' = Inr (Bytes ''RIFF'')"
    by (simp add: demo_defs)
  have l: "librosa_load demo_env (Bytes ''RIFF'') None = Inl (LibraryError ''NoBackendError'')"
    by (simp add: demo_defs)
  have m: "read_file demo_env (fs demo_state) ''missing.wav'' = Inl (OSError ''FileNotFoundError'')"
    by (simp add: demo_defs)
  note t = preprocess_audio_never_raises [of demo_env demo_state _ 22050]
  from t [of "''corrupt.wav''"] r l
  have a: "preprocess_audio demo_env demo_state ''corrupt.wav'' 22050 = (Inr ''corrupt.wav'', demo_state)"
    by blast
  from t [of "''missing.wav''"] m
  have b: "preprocess_audio demo_env demo_state ''missing.wav'' 22050 = (Inr ''missing.wav'', demo_state)"
    by blast
  from r l m a b show ?thesis by simp
qed

subsection \<open>C4: deletion\<close>

text \<open>
  Claim C4, as amended. For an unknown name \<^verbatim>\<open>delete_speaker\<close> returns \<^verbatim>\<open>False\<close> and
  changes nothing. For a known name it never raises. It returns \<^verbatim>\<open>True\<close> exactly when the
  speaker's directory does not exist or \<^verbatim>\<open>shutil.rmtree\<close> succeeds on it; then the entry is
  removed, \<^verbatim>\<open>has_speaker\<close> is false, every path under the directory is absent or, when
  the directory did not exist, as it was (the index file apart, which lies under the
  directory of the one name \<^verbatim>\<open>metadata.json\<close>), and the index file either holds the new
  registry or could not be written. When the removal of the
  directory is refused, the error is swallowed, \<^verbatim>\<open>False\<close> is returned and the entry stays.
\<close>

theorem delete_speaker_contract:
  "(\<not> has_speaker st n \<longrightarrow> delete_speaker env st n = (Inr False, st)) \<and>
   (has_speaker st n \<longrightarrow>
      (\<exists>b st'. delete_speaker env st n = (Inr b, st') \<and>
         (b \<longleftrightarrow> fs st (voice_dir_of n) = None \<or> fst (rmtree env (voice_dir_of n) st) = Inr ()) \<and>
         (b \<longrightarrow> voices st' = AList.delete n (voices st) \<and> \<not> has_speaker st' n \<and>
                (\<forall>p. path_under (voice_dir_of n) p \<and> p \<noteq> voice_metadata_file \<longrightarrow>
                       fs st' p = None \<or> (fs st (voice_dir_of n) = None \<and> fs st' p = fs st p)) \<and>
                (fs st' voice_metadata_file = Some (File (Json (voices st'))) \<or>
                 os_refuses env (Write voice_metadata_file) (fs st') \<noteq> None)) \<and>
         (\<not> b \<longrightarrow> voices st' = voices st \<and> has_speaker st' n)))"
  using delete_unknown [of st n env] delete_known [of st n env] by blast

text \<open>Deleting the registered \<open>alice\<close>, and the unknown \<open>bob\<close>.\<close>

theorem delete_speaker_contract_witness:
  "has_speaker alice_state ''alice'' \<and>
   fst (delete_speaker demo_env alice_state ''alice'') = Inr True \<and>
   \<not> has_speaker (snd (delete_speaker demo_env alice_state ''alice'')) ''alice'' \<and>
   fs (snd (delete_speaker demo_env alice_state ''alice'')) ''voice_embeddings/alice/reference.wav''
     = None \<and>
   \<not> has_speaker alice_state ''bob'' \<and>
   delete_speaker demo_env alice_state ''bob'' = (Inr False, alice_state)"
proof -
  let ?r = "delete_speaker demo_env alice_state ''alice''"
  have h: "has_speaker alice_state ''alice''" by (simp add: demo_defs)
  have nb: "\<not> has_speaker alice_state ''bob''" by (simp add: demo_defs)
  have f: "fst ?r = Inr True" by (simp add: demo_defs)
  have u: "path_under (voice_dir_of ''alice'') ''voice_embeddings/alice/reference.wav''"
    by (simp add: path_under_def demo_defs)
  have nm: "''voice_embeddings/alice/reference.wav'' \<noteq> voice_metadata_file"
    by (simp add: demo_defs)
  have ex: "fs alice_state (voice_dir_of ''alice'') \<noteq> None" by (simp add: demo_defs)
  from delete_speaker_contract [of alice_state "''alice''" demo_env] h obtain b st' where
    r: "?r = (Inr b, st')" and
    yes: "b \<longrightarrow> voices st' = AList.delete ''alice'' (voices alice_state) \<and> \<not> has_speaker st' ''alice'' \<and>
                (\<forall>p. path_under (voice_dir_of ''alice'') p \<and> p \<noteq> voice_metadata_file \<longrightarrow>
                       fs st' p = None \<or> (fs alice_state (voice_dir_of ''alice'') = None \<and> fs st' p = fs alice_state p)) \<and>
                (fs st' voice_metadata_file = Some (File (Json (voices st'))) \<or>
                 os_refuses demo_env (Write voice_metadata_file) (fs st') \<noteq> None)"
    by blast
  from r f have b: "b" by simp
  from yes b have al: "\<forall>p. path_under (voice_dir_of ''alice'') p \<and> p \<noteq> voice_metadata_file \<longrightarrow>
                       fs st' p = None \<or> (fs alice_state (voice_dir_of ''alice'') = None \<and> fs st' p = fs alice_state p)"
    by simp
  from al [rule_format, of "''voice_embeddings/alice/reference.wav''"] u nm ex
  have "fs st' ''voice_embeddings/alice/reference.wav'' = None" by simp
  moreover from yes b have "\<not> has_speaker st' ''alice''" by simp
  moreover from conjunct1 [OF delete_speaker_contract [of alice_state "''bob''" demo_env]] nb
  have "delete_speaker demo_env alice_state ''bob'' = (Inr False, alice_state)" by simp
  ultimately show ?thesis using h nb f r by simp
qed

text \<open>
  The claim as stated fails for an error while the index file is rewritten: it is swallowed
  by \<^verbatim>\<open>save_voices_metadata\<close> and \<^verbatim>\<open>delete_speaker\<close> reports success, while the index on
  disk, from which the registry is loaded at the next start, still holds the speaker.
\<close>

theorem delete_succeeds_despite_index_error:
  "has_speaker alice_state ''alice'' \<and>
   fst (delete_speaker overwrite_refusing_env alice_state ''alice'') = Inr True \<and>
   os_refuses overwrite_refusing_env (Write voice_metadata_file)
       (fs (snd (delete_speaker overwrite_refusing_env alice_state ''alice'')))
     = Some (OSError ''PermissionError'') \<and>
   fs (snd (delete_speaker overwrite_refusing_env alice_state ''alice'')) voice_metadata_file
     = Some (File (Json [(''alice'', alice_profile)])) \<and>
   load_voices_metadata overwrite_refusing_env
       (snd (delete_speaker overwrite_refusing_env alice_state ''alice''))
     = [(''alice'', alice_profile)]"
  by (simp add: demo_defs load_voices_metadata_def path_under_def)

subsection \<open>C5: name collision and overwrite\<close>

text \<open>
  Claim C5, as amended. A call of \<^verbatim>\<open>clone_voice\<close> that names an existing speaker without
  \<^verbatim>\<open>overwrite\<close> fails and leaves the registry and the files as they were; the status is 409
  when the upload declares an \<^verbatim>\<open>audio/\<close> content type and 400 otherwise, since the content
  type is checked first. A call with \<^verbatim>\<open>overwrite\<close> that succeeds leaves the entry of the
  name replaced by a new one (at its old place in the listing), the reference file replaced
  by the clip saved in this call, and the test sample replaced by what the model generated
  from that clip.
\<close>

theorem clone_voice_conflict_and_overwrite:
  "(has_speaker st n \<and> \<not> overwrite \<longrightarrow>
      (\<exists>e. clone_voice env (Some st) audio_file n overwrite = (Inl e, Some st) \<and>
            status_code e =
              (if (\<exists>ct. content_type audio_file = Some ct \<and> prefix ''audio/'' ct) then 409 else 400))) \<and>
   (clone_voice env (Some st) audio_file n True = (Inr resp, vc') \<longrightarrow>
      (\<exists>st' w g r.
           vc' = Some st' \<and>
           map_of (voices st') n = Some (new_profile env (Suc (uuid_ctr st)) n w) \<and>
           list_speakers st' = (if has_speaker st n then list_speakers st else list_speakers st @ [n]) \<and>
           fs st' (path_join (voice_dir_of n) ''reference.wav'') = Some (File (Audio w 22050)) \<and>
           tts_generate env test_text (Audio w 22050) ''en'' None = Inr (g, r) \<and>
           fs st' (path_join (voice_dir_of n) ''test_sample.wav'') = Some (File (Audio [g] r))))"
proof (intro conjI impI)
  assume a: "has_speaker st n \<and> \<not> overwrite"
  show "\<exists>e. clone_voice env (Some st) audio_file n overwrite = (Inl e, Some st) \<and>
            status_code e =
              (if (\<exists>ct. content_type audio_file = Some ct \<and> prefix ''audio/'' ct) then 409 else 400)"
  proof (cases "\<exists>ct. content_type audio_file = Some ct \<and> prefix ''audio/'' ct")
    case True
    then obtain ct where "content_type audio_file = Some ct" "prefix ''audio/'' ct" by blast
    from clone_voice_conflict [OF conjunct1 [OF a] conjunct2 [OF a] this, of env] True
    show ?thesis by simp
  next
    case False
    then have "clone_voice env (Some st) audio_file n overwrite =
                 (Inl (HTTPException 400 [Lit ''File must be audio format (WAV, MP3, FLAC)'']), Some st)"
      by (auto simp: clone_voice_def split: option.splits)
    with False show ?thesis by simp
  qed
next
  assume "clone_voice env (Some st) audio_file n True = (Inr resp, vc')"
  then show "\<exists>st' w g r.
           vc' = Some st' \<and>
           map_of (voices st') n = Some (new_profile env (Suc (uuid_ctr st)) n w) \<and>
           list_speakers st' = (if has_speaker st n then list_speakers st else list_speakers st @ [n]) \<and>
           fs st' (path_join (voice_dir_of n) ''reference.wav'') = Some (File (Audio w 22050)) \<and>
           tts_generate env test_text (Audio w 22050) ''en'' None = Inr (g, r) \<and>
           fs st' (path_join (voice_dir_of n) ''test_sample.wav'') = Some (File (Audio [g] r))"
    by (rule clone_voice_success)
qed

theorem clone_voice_conflict_and_overwrite_witness:
  "has_speaker alice_state ''alice'' \<and>
   (\<exists>e. clone_voice demo_env (Some alice_state) wav_upload ''alice'' False = (Inl e, Some alice_state)
        \<and> status_code e = 409) \<and>
   (\<exists>resp st' w. clone_voice demo_env (Some alice_state) wav_upload ''alice'' True = (Inr resp, Some st')
        \<and> map_of (voices st') ''alice'' = Some (new_profile demo_env 2 ''alice'' w)
        \<and> list_speakers st' = [''alice'']
        \<and> fs st' ''voice_embeddings/alice/reference.wav'' = Some (File (Audio w 22050))
        \<and> fs st' ''voice_embeddings/alice/test_sample.wav'' = Some (File (Audio [[1, 2, 3, 4]] 24000)))"
proof -
  let ?r = "clone_voice demo_env (Some alice_state) wav_upload ''alice'' True"
  have h: "has_speaker alice_state ''alice''" by (simp add: demo_defs)
  have ct: "\<exists>ct. content_type wav_upload = Some ct \<and> prefix ''audio/'' ct"
    by (simp add: demo_defs)
  note t = clone_voice_conflict_and_overwrite [of alice_state "''alice''" _ demo_env wav_upload]
  from conjunct1 [OF t [of False]] h ct
  have c: "\<exists>e. clone_voice demo_env (Some alice_state) wav_upload ''alice'' False = (Inl e, Some alice_state)
        \<and> status_code e = 409"
    by simp
  have "\<exists>resp. fst ?r = Inr resp" by (simp add: demo_defs)
  then obtain resp where f: "fst ?r = Inr resp" ..
  then have r: "?r = (Inr resp, snd ?r)" by (simp add: prod_eq_iff)
  from conjunct2 [OF t, rule_format, OF r] obtain st' w g r' where
    s: "snd ?r = Some st'" and
    m: "map_of (voices st') ''alice'' = Some (new_profile demo_env (Suc (uuid_ctr alice_state)) ''alice'' w)" and
    l: "list_speakers st' = (if has_speaker alice_state ''alice'' then list_speakers alice_state
                             else list_speakers alice_state @ [''alice''])" and
    fr: "fs st' (path_join (voice_dir_of ''alice'') ''reference.wav'') = Some (File (Audio w 22050))" and
    g: "tts_generate demo_env test_text (Audio w 22050) ''en'' None = Inr (g, r')" and
    ft: "fs st' (path_join (voice_dir_of ''alice'') ''test_sample.wav'') = Some (File (Audio [g] r'))"
    by (elim exE conjE)
  have u: "Suc (uuid_ctr alice_state) = 2" by (simp add: alice_state_def)
  have l': "list_speakers st' = [''alice'']" using l h by (simp add: alice_state_def list_speakers_def)
  have p1: "path_join (voice_dir_of ''alice'') ''reference.wav'' = ''voice_embeddings/alice/reference.wav''"
    and p2: "path_join (voice_dir_of ''alice'') ''test_sample.wav'' = ''voice_embeddings/alice/test_sample.wav''"
    by (simp_all add: path_join_def voice_dir_of_def voices_dir_def)
  from g have g': "g = [1, 2, 3, 4]" "r' = 24000" by (simp_all add: demo_env_def)
  from r s have r': "?r = (Inr resp, Some st')" by simp
  from r' m [unfolded u] l' fr [unfolded p1] ft [unfolded p2 g']
  have "\<exists>resp st' w. ?r = (Inr resp, Some st')
        \<and> map_of (voices st') ''alice'' = Some (new_profile demo_env 2 ''alice'' w)
        \<and> list_speakers st' = [''alice'']
        \<and> fs st' ''voice_embeddings/alice/reference.wav'' = Some (File (Audio w 22050))
        \<and> fs st' ''voice_embeddings/alice/test_sample.wav'' = Some (File (Audio [[1, 2, 3, 4]] 24000))"
    by (intro exI conjI)
  with h c show ?thesis by (intro conjI)
qed

text \<open>
  The claim as stated fails for an upload that is not declared as audio: the existing
  speaker is named, overwrite is not requested, and the status is 400, not 409.
\<close>

theorem clone_voice_bad_content_type_precedes_conflict:
  "has_speaker alice_state ''alice'' \<and>
   clone_voice demo_env (Some alice_state) text_upload ''alice'' False =
     (Inl (HTTPException 400 [Lit ''File must be audio format (WAV, MP3, FLAC)'']), Some alice_state)"
  by (simp add: demo_defs)

subsection \<open>C6: synthesis for an unknown speaker\<close>

text \<open>
  Claim C6. For a name that is not registered, \<^verbatim>\<open>synthesize_speech\<close> raises the HTTP error
  404 whose detail ends with the printed list of the registered names, and the state, with
  the record of the calls to the model and the file system, is unchanged; the method
  \<^verbatim>\<open>synthesize\<close> itself raises \<^verbatim>\<open>ValueError\<close> before it does anything.
\<close>

theorem synthesize_speech_unknown_speaker:
  assumes "\<not> has_speaker st speaker_name"
  shows "synthesize_speech env (Some st) t speaker_name language speed =
           (Inl (HTTPException 404
                   [Lit ''Speaker '', Lit [CHR 0x27], Str speaker_name, Lit [CHR 0x27],
                    Lit '' not found. Available speakers: '', Repr_list (list_speakers st)]),
            Some st) \<and>
         synthesize env st t speaker_name language speed =
           (Inl (ValueError (''Speaker '' @ [CHR 0x27] @ speaker_name @ [CHR 0x27] @ '' not found'')),
            st)"
  using assms synthesize_unknown [OF assms, of env t language speed]
  by (simp add: synthesize_speech_def)

theorem synthesize_speech_unknown_speaker_witness:
  "\<not> has_speaker alice_state ''bob'' \<and>
   synthesize_speech demo_env (Some alice_state) ''Hello world'' ''bob'' ''en'' 1 =
     (Inl (HTTPException 404
             [Lit ''Speaker '', Lit [CHR 0x27], Str ''bob'', Lit [CHR 0x27],
              Lit '' not found. Available speakers: '', Repr_list [''alice'']]),
      Some alice_state) \<and>
   tts_log alice_state = []"
proof -
  have nb: "\<not> has_speaker alice_state ''bob''" by (simp add: alice_state_def has_speaker_def)
  have l: "list_speakers alice_state = [''alice'']" by (simp add: alice_state_def list_speakers_def)
  have g: "tts_log alice_state = []" by (simp add: alice_state_def)
  from conjunct1 [OF synthesize_speech_unknown_speaker [OF nb, of demo_env "''Hello world''" "''en''" 1]]
  show ?thesis using nb g by (simp add: l)
qed

subsection \<open>C7: where the processed clip is written\<close>




subsection \<open>C8: the time stretch\<close>




subsection \<open>C9: the fields of a profile\<close>

text \<open>
  Claim C9. The entry written by a successful \<^verbatim>\<open>create_voice_embedding\<close> has status
  \<^verbatim>\<open>active\<close>, sample rate 22050, and as \<^verbatim>\<open>created_at\<close> the printed form of the UUID drawn
  during the call, not a time; and in every reachable state every entry of the registry has
  that status, that sample rate, and one of the UUIDs drawn so far as \<^verbatim>\<open>created_at\<close>.
\<close>

theorem created_profile_fields:
  "(create_voice_embedding env st audio_path speaker_name = (Inr True, st') \<longrightarrow>
      (\<exists>p. map_of (voices st') speaker_name = Some p \<and>
           status p = ''active'' \<and> sample_rate p = 22050 \<and>
           created_at p = str_uuid (uuid4 env (uuid_ctr st)) \<and>
           uuid_ctr st' = Suc (uuid_ctr st))) \<and>
   (reachable env st \<longrightarrow>
      list_all (\<lambda>(n, p). status p = ''active'' \<and> sample_rate p = 22050 \<and>
                         created_at p \<in> set (issued_ids env (uuid_ctr st))) (voices st))"
proof (intro conjI impI)
  assume ok: "create_voice_embedding env st audio_path speaker_name = (Inr True, st')"
  from create_success_registry [OF ok] obtain w where
    v: "voices st' = AList.update speaker_name (new_profile env (uuid_ctr st) speaker_name w) (voices st)"
    and u: "uuid_ctr st' = Suc (uuid_ctr st)" by blast
  have "map_of (voices st') speaker_name = Some (new_profile env (uuid_ctr st) speaker_name w)"
    by (simp add: v update_conv')
  with u show "\<exists>p. map_of (voices st') speaker_name = Some p \<and>
           status p = ''active'' \<and> sample_rate p = 22050 \<and>
           created_at p = str_uuid (uuid4 env (uuid_ctr st)) \<and>
           uuid_ctr st' = Suc (uuid_ctr st)"
    by (simp add: new_profile_def)
next
  assume "reachable env st"
  from reachable_inv [OF this]
  show "list_all (\<lambda>(n, p). status p = ''active'' \<and> sample_rate p = 22050 \<and>
                         created_at p \<in> set (issued_ids env (uuid_ctr st))) (voices st)"
    by (simp add: registry_inv_def good_registry_def good_profile_def)
qed

theorem created_profile_fields_witness:
  "fst (create_voice_embedding demo_env demo_state ''clip.wav'' ''alice'') = Inr True \<and>
   reachable demo_env (snd (create_voice_embedding demo_env demo_state ''clip.wav'' ''alice'')) \<and>
   (\<exists>p. map_of (voices (snd (create_voice_embedding demo_env demo_state ''clip.wav'' ''alice''))) ''alice''
          = Some p \<and> status p = ''active'' \<and> sample_rate p = 22050 \<and>
        created_at p = ''01234567-89ab-cdef-0123-456789abcdef'') \<and>
   list_all (\<lambda>(n, p). status p = ''active'' \<and> sample_rate p = 22050 \<and>
                      created_at p \<in> set (issued_ids demo_env 1))
     (voices (snd (create_voice_embedding demo_env demo_state ''clip.wav'' ''alice'')))"
proof -
  let ?r = "create_voice_embedding demo_env demo_state ''clip.wav'' ''alice''"
  have f: "fst ?r = Inr True" by (simp add: demo_defs)
  then have r: "?r = (Inr True, snd ?r)" by (simp add: prod_eq_iff)
  have "init_cloner demo_env demo_state = (Inr (), demo_state)"
    by (simp add: init_cloner_def load_voices_metadata_def demo_defs)
  moreover have "fs demo_state voice_metadata_file = None" by (simp add: demo_defs)
  ultimately have "reachable demo_env demo_state" by (rule reachable.fresh [rotated])
  then have re: "reachable demo_env (snd ?r)" by (rule reachable.create) simp
  note t = created_profile_fields [of demo_env]
  from conjunct1 [OF t, rule_format, OF r] obtain p where
    p: "map_of (voices (snd ?r)) ''alice'' = Some p" "status p = ''active''" "sample_rate p = 22050"
       "created_at p = str_uuid (uuid4 demo_env (uuid_ctr demo_state))"
       "uuid_ctr (snd ?r) = Suc (uuid_ctr demo_state)"
    by (elim exE conjE)
  have id: "str_uuid (uuid4 demo_env (uuid_ctr demo_state)) = ''01234567-89ab-cdef-0123-456789abcdef''"
    by (simp add: demo_env_def str_uuid_def)
  have u: "uuid_ctr (snd ?r) = 1" using p(5) by (simp add: demo_state_def)
  from conjunct2 [OF t, rule_format, OF re]
  have "list_all (\<lambda>(n, p). status p = ''active'' \<and> sample_rate p = 22050 \<and>
                      created_at p \<in> set (issued_ids demo_env 1)) (voices (snd ?r))"
    unfolding u .
  with f re p id show ?thesis by auto
qed

subsection \<open>C10: a failed time stretch is swallowed\<close>

text \<open>
  Claim C10. When \<^verbatim>\<open>speed\<close> is not 1.0 and the model has written its output, a failure
  inside \<^verbatim>\<open>_adjust_speed\<close> does not reach the caller: \<^verbatim>\<open>synthesize\<close> returns the output
  path, the state is the one the model left, and the output file holds the generated,
  un-stretched audio.
\<close>

theorem synthesize_speed_failure_swallowed:
  assumes known: "map_of (voices st) n = Some entry"
    and mk: "mkdir_exist_ok env (path_parent (synth_output_path env st n))
               (st\<lparr>uuid_ctr := Suc (uuid_ctr st)\<rparr>) = (Inr (), st2)"
    and tts: "tts_to_file env t (reference_path entry) l (synth_output_path env st n) (Some True) st2
                = (Inr (), st3)"
    and speed: "speed \<noteq> 1"
    and fails: "fst (adjust_speed_body env st3 (synth_output_path env st n) speed) = Inl e"
  shows "synthesize env st t n l speed = (Inr (synth_output_path env st n), st3) \<and>
         (\<exists>g r. fs st3 (synth_output_path env st n) = Some (File (Audio [g] r)))"
proof -
  obtain s where b: "adjust_speed_body env st3 (synth_output_path env st n) speed = (Inl e, s)"
    using fails by (cases "adjust_speed_body env st3 (synth_output_path env st n) speed") auto
  from adjust_speed_body_cases [OF b] have "s = st3" by auto
  with b have "adjust_speed env st3 (synth_output_path env st n) speed = (Inr (), st3)"
    by (simp add: adjust_speed_def)
  with mk tts speed have "synthesize env st t n l speed = (Inr (synth_output_path env st n), st3)"
    by (simp add: synthesize_known [OF known])
  moreover from tts_to_file_cases [OF tts]
  have "\<exists>g r. fs st3 (synth_output_path env st n) = Some (File (Audio [g] r))" by auto
  ultimately show ?thesis by simp
qed

text \<open>On an operating system that refuses to overwrite the generated file.\<close>

theorem synthesize_speed_failure_swallowed_witness:
  "fst (adjust_speed_body overwrite_refusing_env
          (snd (tts_to_file overwrite_refusing_env ''Good bye'' ''voice_embeddings/alice/reference.wav''
                  ''en'' ''outputs/output_alice_01234567.wav'' (Some True)
                  (alice_state\<lparr>uuid_ctr := 2\<rparr>)))
          ''outputs/output_alice_01234567.wav'' (1 / 2))
     = Inl (OSError ''PermissionError'') \<and>
   fst (synthesize overwrite_refusing_env alice_state ''Good bye'' ''alice'' ''en'' (1 / 2))
     = Inr ''outputs/output_alice_01234567.wav'' \<and>
   fs (snd (synthesize overwrite_refusing_env alice_state ''Good bye'' ''alice'' ''en'' (1 / 2)))
      ''outputs/output_alice_01234567.wav'' = Some (File (Audio [[1, 2, 3, 4]] 24000))"
proof -
  let ?E = overwrite_refusing_env
  let ?out = "''outputs/output_alice_01234567.wav''"
  let ?entry = alice_profile
  let ?st2 = "alice_state\<lparr>uuid_ctr := 2\<rparr>"
  let ?t = "tts_to_file ?E ''Good bye'' ''voice_embeddings/alice/reference.wav'' ''en'' ?out (Some True) ?st2"
  have o: "synth_output_path ?E alice_state ''alice'' = ?out" by (simp add: demo_defs)
  have known: "map_of (voices alice_state) ''alice'' = Some ?entry" by (simp add: alice_state_def)
  have mk: "mkdir_exist_ok ?E (path_parent (synth_output_path ?E alice_state ''alice''))
               (alice_state\<lparr>uuid_ctr := Suc (uuid_ctr alice_state)\<rparr>) = (Inr (), ?st2)"
    unfolding o by (simp add: demo_defs)
  have "fst ?t = Inr ()" by (simp add: demo_defs)
  moreover have "reference_path alice_profile = ''voice_embeddings/alice/reference.wav''"
    by (simp add: alice_profile_def)
  ultimately have tts: "tts_to_file ?E ''Good bye'' (reference_path ?entry) ''en''
                    (synth_output_path ?E alice_state ''alice'') (Some True) ?st2 = (Inr (), snd ?t)"
    unfolding o by (simp add: prod_eq_iff)
  have fails: "fst (adjust_speed_body ?E (snd ?t) (synth_output_path ?E alice_state ''alice'') (1 / 2))
                 = Inl (OSError ''PermissionError'')"
    unfolding o by (simp add: demo_defs)
  have sp: "(1 / 2 :: rat) \<noteq> 1" by simp
  from synthesize_speed_failure_swallowed [OF known mk tts sp fails]
  have s: "synthesize ?E alice_state ''Good bye'' ''alice'' ''en'' (1 / 2) = (Inr ?out, snd ?t)"
    unfolding o by simp
  have "fs (snd ?t) ?out = Some (File (Audio [[1, 2, 3, 4]] 24000))" by (simp add: demo_defs)
  with s fails [unfolded o] show ?thesis by simp
qed

end
